theory Spec2Isabelle
  imports Complex_Main
begin

section \<open>Python values and exceptions\<close>

text \<open>
  The bot of \<^verbatim>\<open>signal_bot.py\<close> moves decoded JSON around without looking at its
  type: the ids returned by the model listing and the content of a completion are
  whatever the remote service sent. They are modelled as the values that Python's JSON
  decoder produces. An object is the list of its entries, with distinct keys, looked up
  by key.
\<close>

datatype json =
    JNull
  | JBool bool
  | JInt int
  | JFloat rat
  | JStr string
  | JArr "json list"
  | JObj "(string \<times> json) list"

text \<open>
  An exception is its class name and its \<^verbatim>\<open>str(e)\<close>. Only classes derived from
  \<^verbatim>\<open>Exception\<close> are raised by the operations below, so every \<^verbatim>\<open>except Exception\<close>
  of the source catches all of them.
\<close>

datatype exn = Exn (exn_class: string) (exn_str: string)

fun type_name :: "json \<Rightarrow> string" where
  "type_name JNull = ''NoneType''"
| "type_name (JBool _) = ''bool''"
| "type_name (JInt _) = ''int''"
| "type_name (JFloat _) = ''float''"
| "type_name (JStr _) = ''str''"
| "type_name (JArr _) = ''list''"
| "type_name (JObj _) = ''dict''"

definition not_subscriptable :: "json \<Rightarrow> exn" where
  "not_subscriptable v =
     Exn ''TypeError'' ([CHR 0x27] @ type_name v @ [CHR 0x27] @ '' object is not subscriptable'')"

text \<open>\<^verbatim>\<open>v[k]\<close> for a string key \<open>k\<close>.\<close>

fun getitem_key :: "json \<Rightarrow> string \<Rightarrow> exn + json" where
  "getitem_key (JObj kvs) k =
     (case map_of kvs k of
        Some x \<Rightarrow> Inr x
      | None \<Rightarrow> Inl (Exn ''KeyError'' ([CHR 0x27] @ k @ [CHR 0x27])))"
| "getitem_key (JArr xs) k =
     Inl (Exn ''TypeError'' ''list indices must be integers or slices, not str'')"
| "getitem_key (JStr s) k =
     Inl (Exn ''TypeError'' (''string indices must be integers, not '' @ [CHR 0x27] @ ''str'' @ [CHR 0x27]))"
| "getitem_key v k = Inl (not_subscriptable v)"

text \<open>\<^verbatim>\<open>v[0]\<close>. A decoded JSON object has string keys only, so \<^verbatim>\<open>0\<close> is never one.\<close>

fun getitem_0 :: "json \<Rightarrow> exn + json" where
  "getitem_0 (JArr []) = Inl (Exn ''IndexError'' ''list index out of range'')"
| "getitem_0 (JArr (x # xs)) = Inr x"
| "getitem_0 (JStr []) = Inl (Exn ''IndexError'' ''string index out of range'')"
| "getitem_0 (JStr (c # cs)) = Inr (JStr [c])"
| "getitem_0 (JObj kvs) = Inl (Exn ''KeyError'' ''0'')"
| "getitem_0 v = Inl (not_subscriptable v)"

text \<open>\<^verbatim>\<open>v.get(k, default)\<close>: only a dict has the method.\<close>

fun get_default :: "json \<Rightarrow> string \<Rightarrow> json \<Rightarrow> exn + json" where
  "get_default (JObj kvs) k d = Inr (case map_of kvs k of Some x \<Rightarrow> x | None \<Rightarrow> d)"
| "get_default v k d =
     Inl (Exn ''AttributeError''
        ([CHR 0x27] @ type_name v @ [CHR 0x27] @ '' object has no attribute '' @ [CHR 0x27] @ ''get'' @ [CHR 0x27]))"

text \<open>
  The values a \<^verbatim>\<open>for\<close> loop over \<open>v\<close> visits: the elements of a list, the keys of a
  dict, the one-character strings of a string.
\<close>

fun iterate :: "json \<Rightarrow> exn + json list" where
  "iterate (JArr xs) = Inr xs"
| "iterate (JObj kvs) = Inr (map (\<lambda>kv. JStr (fst kv)) kvs)"
| "iterate (JStr s) = Inr (map (\<lambda>c. JStr [c]) s)"
| "iterate v =
     Inl (Exn ''TypeError'' ([CHR 0x27] @ type_name v @ [CHR 0x27] @ '' object is not iterable''))"

text \<open>
  The list comprehension \<^verbatim>\<open>[model['id'] for model in ms]\<close>: the first element
  that raises ends it.
\<close>

fun ids_of :: "json list \<Rightarrow> exn + json list" where
  "ids_of [] = Inr []"
| "ids_of (m # ms) =
     (case getitem_key m ''id'' of
        Inl e \<Rightarrow> Inl e
      | Inr i \<Rightarrow> (case ids_of ms of Inl e \<Rightarrow> Inl e | Inr is \<Rightarrow> Inr (i # is)))"

text \<open>Decimal rendering of an integer, as an f-string formats \<^verbatim>\<open>response.status\<close>.\<close>

fun str_nat :: "nat \<Rightarrow> string" where
  "str_nat n =
     (if n < 10 then [char_of (48 + n)]
      else str_nat (n div 10) @ [char_of (48 + n mod 10)])"

definition str_int :: "int \<Rightarrow> string" where
  "str_int i = (if i < 0 then ''-'' @ str_nat (nat (- i)) else str_nat (nat i))"

declare str_nat.simps [simp del]

section \<open>The remote service\<close>

text \<open>
  What the program sees of one HTTP exchange. Opening the request either raises or yields
  a response; \<^verbatim>\<open>await response.json()\<close> and \<^verbatim>\<open>await response.text()\<close> either raise
  or yield the decoded body. The service is a parameter of every operation: a \<open>net\<close>
  says how it answers a GET of a URL and a POST of a JSON payload to a URL.
\<close>

record response =
  status :: int
  json_body :: "exn + json"
  text_body :: "exn + string"

record net =
  http_get :: "string \<Rightarrow> exn + response"
  http_post :: "string \<Rightarrow> json \<Rightarrow> exn + response"

text \<open>What the program does to the outside: the requests it issues and the replies it sends.\<close>

datatype event =
    HttpGet string
  | HttpPost string json
  | Send json

section \<open>PrivateModeClient\<close>

record client =
  base_url :: string

fun rstrip_slash_rev :: "string \<Rightarrow> string" where
  "rstrip_slash_rev [] = []"
| "rstrip_slash_rev (c # cs) = (if c = CHR ''/'' then rstrip_slash_rev cs else c # cs)"

definition PrivateModeClient :: "string \<Rightarrow> client" where
  "PrivateModeClient url = \<lparr>base_url = rev (rstrip_slash_rev (rev url))\<rparr>"

text \<open>The expression \<^verbatim>\<open>[model['id'] for model in data.get('data', [])]\<close>.\<close>

definition model_ids :: "json \<Rightarrow> exn + json list" where
  "model_ids data =
     (case get_default data ''data'' (JArr []) of
        Inl e \<Rightarrow> Inl e
      | Inr ms \<Rightarrow> (case iterate ms of Inl e \<Rightarrow> Inl e | Inr xs \<Rightarrow> ids_of xs))"

text \<open>The body of the \<^verbatim>\<open>try\<close> of \<^verbatim>\<open>list_models\<close>: \<open>Inl\<close> is an exception raised in it.\<close>

definition list_models_try :: "client \<Rightarrow> net \<Rightarrow> exn + json list" where
  "list_models_try c n =
     (case http_get n (base_url c @ ''/v1/models'') of
        Inl e \<Rightarrow> Inl e
      | Inr r \<Rightarrow>
          if status r = 200 then
            (case json_body r of Inl e \<Rightarrow> Inl e | Inr data \<Rightarrow> model_ids data)
          else Inr [])"

text \<open>
  \<^verbatim>\<open>list_models\<close> with its \<^verbatim>\<open>except Exception\<close>: the result (\<open>Inl\<close> would be an
  exception leaving the method) and the requests issued.
\<close>

definition list_models :: "client \<Rightarrow> net \<Rightarrow> (exn + json list) \<times> event list" where
  "list_models c n =
     (case list_models_try c n of
        Inl e \<Rightarrow> Inr []
      | Inr ids \<Rightarrow> Inr ids,
      [HttpGet (base_url c @ ''/v1/models'')])"

definition no_models_text :: string where
  "no_models_text = ''Sorry, no models are available at the moment.''"

definition status_error_text :: "int \<Rightarrow> string" where
  "status_error_text st = ''Sorry, I encountered an error: '' @ str_int st"

definition request_failed_text :: "exn \<Rightarrow> string" where
  "request_failed_text e =
     ''Sorry, I couldn'' @ [CHR 0x27] @ ''t process your request: '' @ exn_str e"

definition payload :: "json \<Rightarrow> json list \<Rightarrow> json" where
  "payload m msgs =
     JObj [(''model'', m), (''messages'', JArr msgs),
           (''temperature'', JFloat (7 / 10)), (''max_tokens'', JInt 1000)]"

text \<open>The expression \<^verbatim>\<open>data['choices'][0]['message']['content']\<close>.\<close>

definition first_choice_content :: "json \<Rightarrow> exn + json" where
  "first_choice_content data =
     (case getitem_key data ''choices'' of
        Inl e \<Rightarrow> Inl e
      | Inr choices \<Rightarrow>
          (case getitem_0 choices of
             Inl e \<Rightarrow> Inl e
           | Inr choice \<Rightarrow>
               (case getitem_key choice ''message'' of
                  Inl e \<Rightarrow> Inl e
                | Inr msg \<Rightarrow> getitem_key msg ''content'')))"

text \<open>The body of the \<^verbatim>\<open>try\<close> of \<^verbatim>\<open>chat_completion\<close>, for the payload \<open>p\<close>.\<close>

definition chat_completion_try :: "client \<Rightarrow> net \<Rightarrow> json \<Rightarrow> exn + json" where
  "chat_completion_try c n p =
     (case http_post n (base_url c @ ''/v1/chat/completions'') p of
        Inl e \<Rightarrow> Inl e
      | Inr r \<Rightarrow>
          if status r = 200 then
            (case json_body r of Inl e \<Rightarrow> Inl e | Inr data \<Rightarrow> first_choice_content data)
          else
            (case text_body r of
               Inl e \<Rightarrow> Inl e
             | Inr error_text \<Rightarrow> Inr (JStr (status_error_text (status r)))))"

text \<open>The request part of \<^verbatim>\<open>chat_completion\<close>, once the model \<open>m\<close> is chosen.\<close>

definition post_completion :: "client \<Rightarrow> net \<Rightarrow> json list \<Rightarrow> json \<Rightarrow> (exn + json) \<times> event list" where
  "post_completion c n msgs m =
     (case chat_completion_try c n (payload m msgs) of
        Inl e \<Rightarrow> Inr (JStr (request_failed_text e))
      | Inr v \<Rightarrow> Inr v,
      [HttpPost (base_url c @ ''/v1/chat/completions'') (payload m msgs)])"

text \<open>\<^verbatim>\<open>not model\<close> holds of \<^verbatim>\<open>None\<close> and of the empty string.\<close>

fun truthy :: "string option \<Rightarrow> bool" where
  "truthy None = False"
| "truthy (Some s) = (s \<noteq> [])"

definition chat_completion ::
  "client \<Rightarrow> net \<Rightarrow> json list \<Rightarrow> string option \<Rightarrow> (exn + json) \<times> event list" where
  "chat_completion c n msgs mdl =
     (case (if truthy mdl then mdl else None) of
        Some m \<Rightarrow> post_completion c n msgs (JStr m)
      | None \<Rightarrow>
          (case list_models c n of
             (Inl e, evs) \<Rightarrow> (Inl e, evs)
           | (Inr [], evs) \<Rightarrow> (Inr (JStr no_models_text), evs)
           | (Inr (m # ms), evs) \<Rightarrow>
               (case post_completion c n msgs m of (r, evs') \<Rightarrow> (r, evs @ evs'))))"

section \<open>ChatCommand and the universal handler\<close>

text \<open>
  An inbound message: \<^verbatim>\<open>c.message.source\<close> and \<^verbatim>\<open>c.message.text\<close> (which may be
  \<^verbatim>\<open>None\<close>). \<^verbatim>\<open>c.send(t)\<close> is the event \<open>Send t\<close>; the transport is taken to
  deliver it.
\<close>

record message =
  source :: string
  "text" :: "string option"

record chat_command =
  privatemode_client :: client
  model :: "string option"
  conversations :: "string \<rightharpoonup> json list"

definition ChatCommand :: "client \<Rightarrow> string option \<Rightarrow> chat_command" where
  "ChatCommand c mdl = \<lparr>privatemode_client = c, model = mdl, conversations = Map.empty\<rparr>"

definition user_turn :: "string \<Rightarrow> json" where
  "user_turn t = JObj [(''role'', JStr ''user''), (''content'', JStr t)]"

definition assistant_turn :: "json \<Rightarrow> json" where
  "assistant_turn r = JObj [(''role'', JStr ''assistant''), (''content'', r)]"

definition provide_message_text :: string where
  "provide_message_text = ''Please provide a message to chat with the AI.''"

text \<open>The history held for a sender; a sender without an entry has none.\<close>

definition history :: "chat_command \<Rightarrow> string \<Rightarrow> json list" where
  "history cc s = (case conversations cc s of None \<Rightarrow> [] | Some h \<Rightarrow> h)"

text \<open>
  The history after the user turn is appended and the list cut to its last 10 elements
  (\<^verbatim>\<open>h[-10:]\<close>, taken when \<^verbatim>\<open>len(h) > 10\<close>): what is passed to \<^verbatim>\<open>chat_completion\<close>.
\<close>

definition with_user_turn :: "json list \<Rightarrow> string \<Rightarrow> json list" where
  "with_user_turn h t =
     (let h1 = h @ [user_turn t]
      in if length h1 > 10 then drop (length h1 - 10) h1 else h1)"

text \<open>
  The result of a handler: the command object after the call, the events in the order
  they happened, and the exception that left the handler, if one did.
\<close>

record outcome =
  after :: chat_command
  events :: "event list"
  raised :: "exn option"

definition chat_handle :: "chat_command \<Rightarrow> message \<Rightarrow> net \<Rightarrow> outcome" where
  "chat_handle cc msg n =
     (if \<not> truthy (text msg) then
        \<lparr>after = cc, events = [Send (JStr provide_message_text)], raised = None\<rparr>
      else
        let message_text = (case text msg of Some t \<Rightarrow> t | None \<Rightarrow> []);
            sender = source msg;
            h = with_user_turn (history cc sender) message_text;
            cc1 = cc\<lparr>conversations := (conversations cc)(sender \<mapsto> h)\<rparr>
        in case chat_completion (privatemode_client cc) n h (model cc) of
             (Inl e, evs) \<Rightarrow> \<lparr>after = cc1, events = evs, raised = Some e\<rparr>
           | (Inr response, evs) \<Rightarrow>
               \<lparr>after = cc1\<lparr>conversations := (conversations cc1)(sender \<mapsto> h @ [assistant_turn response])\<rparr>,
                events = evs @ [Send response], raised = None\<rparr>)"

text \<open>\<^verbatim>\<open>UniversalChatHandler.handle\<close>, the only handler that \<^verbatim>\<open>main\<close> registers.\<close>

definition universal_handle :: "chat_command \<Rightarrow> message \<Rightarrow> net \<Rightarrow> outcome" where
  "universal_handle cc msg n =
     (if truthy (text msg) then chat_handle cc msg n
      else \<lparr>after = cc, events = [], raised = None\<rparr>)"

text \<open>
  Sequential invocations of \<^verbatim>\<open>ChatCommand.handle\<close>, each with its message and with
  the behaviour of the service at that time.
\<close>

fun chat_run :: "chat_command \<Rightarrow> (message \<times> net) list \<Rightarrow> chat_command" where
  "chat_run cc [] = cc"
| "chat_run cc ((msg, n) # rest) = chat_run (after (chat_handle cc msg n)) rest"

text \<open>
  The reply a handler sent (its last event), and the turns one exchange consists of: what
  the sender wrote and what the bot answered.
\<close>

fun reply :: "event list \<Rightarrow> json option" where
  "reply [] = None"
| "reply [Send r] = Some r"
| "reply [e] = None"
| "reply (e # es) = reply es"

definition exchanged :: "message \<Rightarrow> event list \<Rightarrow> json list" where
  "exchanged msg evs =
     (case text msg of
        None \<Rightarrow> []
      | Some t \<Rightarrow>
          if t = [] then []
          else user_turn t # (case reply evs of None \<Rightarrow> [] | Some r \<Rightarrow> [assistant_turn r]))"

text \<open>All turns exchanged with sender \<open>s\<close> during a run, in the order of receipt.\<close>

fun transcript :: "chat_command \<Rightarrow> string \<Rightarrow> (message \<times> net) list \<Rightarrow> json list" where
  "transcript cc s [] = []"
| "transcript cc s ((msg, n) # rest) =
     (if source msg = s then exchanged msg (events (chat_handle cc msg n)) else [])
     @ transcript (after (chat_handle cc msg n)) s rest"

section \<open>Two invocations at once\<close>

text \<open>
  \<^verbatim>\<open>handle\<close> is a coroutine: the event loop runs it until an \<^verbatim>\<open>await\<close> that
  suspends, and only there can another invocation run. \<^verbatim>\<open>ChatCommand.handle\<close> touches
  \<^verbatim>\<open>self.conversations\<close> in two such stretches: from its start to the call of
  \<^verbatim>\<open>chat_completion\<close> (the user turn is appended and the list cut), and after that call
  has returned (the assistant turn is appended to the list then held for the sender).
  For an empty text the first stretch ends the invocation and changes nothing.
\<close>

definition step_user :: "chat_command \<Rightarrow> message \<Rightarrow> chat_command" where
  "step_user cc msg =
     (case text msg of
        None \<Rightarrow> cc
      | Some t \<Rightarrow>
          if t = [] then cc
          else cc\<lparr>conversations :=
                 (conversations cc)(source msg \<mapsto> with_user_turn (history cc (source msg)) t)\<rparr>)"

text \<open>
  \<^verbatim>\<open>self.conversations[sender].append(...)\<close> with the response of the completion call:
  the lookup raises when the sender has no entry.
\<close>

definition step_assistant :: "chat_command \<Rightarrow> message \<Rightarrow> json \<Rightarrow> exn + chat_command" where
  "step_assistant cc msg response =
     (case conversations cc (source msg) of
        None \<Rightarrow> Inl (Exn ''KeyError'' ([CHR 0x27] @ source msg @ [CHR 0x27]))
      | Some h \<Rightarrow>
          Inr (cc\<lparr>conversations := (conversations cc)(source msg \<mapsto> h @ [assistant_turn response])\<rparr>))"

datatype step = AppendUser message | AppendAssistant message json

fun run_steps :: "chat_command \<Rightarrow> step list \<Rightarrow> exn + chat_command" where
  "run_steps cc [] = Inr cc"
| "run_steps cc (AppendUser msg # rest) = run_steps (step_user cc msg) rest"
| "run_steps cc (AppendAssistant msg r # rest) =
     (case step_assistant cc msg r of Inl e \<Rightarrow> Inl e | Inr cc' \<Rightarrow> run_steps cc' rest)"

definition history_after :: "chat_command \<Rightarrow> step list \<Rightarrow> string \<Rightarrow> exn + json list" where
  "history_after cc steps s =
     (case run_steps cc steps of Inl e \<Rightarrow> Inl e | Inr cc' \<Rightarrow> Inr (history cc' s))"

fun interleavings :: "'a list \<Rightarrow> 'a list \<Rightarrow> 'a list list" where
  "interleavings [] ys = [ys]"
| "interleavings xs [] = [xs]"
| "interleavings (x # xs) (y # ys) =
     map ((#) x) (interleavings xs (y # ys)) @ map ((#) y) (interleavings (x # xs) ys)"

text \<open>
  The orders in which the event loop can run the stretches of two invocations, the one
  for \<open>msg_a\<close> (received first) starting first; \<open>r_a\<close> and \<open>r_b\<close> are what
  \<^verbatim>\<open>chat_completion\<close> returned to each.
\<close>

definition schedules :: "message \<Rightarrow> json \<Rightarrow> message \<Rightarrow> json \<Rightarrow> step list list" where
  "schedules msg_a r_a msg_b r_b =
     map ((#) (AppendUser msg_a))
       (interleavings [AppendAssistant msg_a r_a] [AppendUser msg_b, AppendAssistant msg_b r_b])"

section \<open>The other commands and the registration in main\<close>

text \<open>\<^verbatim>\<open>ClearCommand.handle\<close>, on the conversations of the chat command it was given.\<close>

definition clear_handle :: "chat_command \<Rightarrow> message \<Rightarrow> outcome" where
  "clear_handle cc msg =
     (let sender = source msg
      in if sender \<in> dom (conversations cc) then
           \<lparr>after = cc\<lparr>conversations := (conversations cc)(sender := None)\<rparr>,
            events = [Send (JStr ''Conversation history cleared.'')], raised = None\<rparr>
         else
           \<lparr>after = cc, events = [Send (JStr ''No conversation history to clear.'')],
            raised = None\<rparr>)"

datatype command = Chat | Clear | Models | Help | UniversalChatHandler

text \<open>
  \<^verbatim>\<open>main\<close> registers one command, \<^verbatim>\<open>bot.register(UniversalChatHandler())\<close>; the
  classes \<^verbatim>\<open>ClearCommand\<close>, \<^verbatim>\<open>ModelsCommand\<close> and \<^verbatim>\<open>HelpCommand\<close> are defined and
  never instantiated.
\<close>

definition registered :: "command list" where
  "registered = [UniversalChatHandler]"

text \<open>
  The handlers whose \<^verbatim>\<open>handle\<close> runs when the \<^verbatim>\<open>handle\<close> of a command is called with
  a message of text \<open>t\<close>: the universal handler calls the chat command for a text that
  is not empty; no other handler calls another. None of them looks for a command token.
\<close>

fun handlers_run :: "command \<Rightarrow> string option \<Rightarrow> command list" where
  "handlers_run UniversalChatHandler t = UniversalChatHandler # (if truthy t then [Chat] else [])"
| "handlers_run c t = [c]"

text \<open>
  The signalbot library, which is not part of the repository, hands every inbound message
  to every registered command.
\<close>

definition dispatch :: "string option \<Rightarrow> command list" where
  "dispatch t = concat (map (\<lambda>c. handlers_run c t) registered)"

text \<open>What the bot does on an inbound message: the handling of the registered command.\<close>

definition on_message :: "chat_command \<Rightarrow> message \<Rightarrow> net \<Rightarrow> outcome" where
  "on_message cc msg n = universal_handle cc msg n"

section \<open>Example services and messages\<close>

text \<open>Concrete behaviours of the remote service, used to run the handlers on examples.\<close>

definition ok_response :: "json \<Rightarrow> response" where
  "ok_response data = \<lparr>status = 200, json_body = Inr data, text_body = Inr []\<rparr>"

definition error_response :: "int \<Rightarrow> string \<Rightarrow> response" where
  "error_response st body =
     \<lparr>status = st, json_body = Inl (Exn ''ContentTypeError'' ''unexpected mimetype''),
      text_body = Inr body\<rparr>"

definition cannot_connect :: exn where
  "cannot_connect = Exn ''ClientConnectorError'' ''Cannot connect to host''"

text \<open>No request gets through.\<close>

definition service_down :: net where
  "service_down = \<lparr>http_get = (\<lambda>url. Inl cannot_connect),
                    http_post = (\<lambda>url p. Inl cannot_connect)\<rparr>"

definition models_body :: json where
  "models_body = JObj [(''data'', JArr [JObj [(''id'', JStr ''m1'')], JObj [(''id'', JStr ''m2'')]])]"

definition completion_body :: "json \<Rightarrow> json" where
  "completion_body v =
     JObj [(''choices'',
            JArr [JObj [(''message'', JObj [(''role'', JStr ''assistant''), (''content'', v)])]])]"

text \<open>Answers every GET with the body \<open>g\<close> and every POST with the body \<open>p\<close>, status 200.\<close>

definition service_answering :: "json \<Rightarrow> json \<Rightarrow> net" where
  "service_answering g p = \<lparr>http_get = (\<lambda>url. Inr (ok_response g)),
                             http_post = (\<lambda>url payload. Inr (ok_response p))\<rparr>"

text \<open>Lists the models m1 and m2 and answers every completion with the content \<open>v\<close>.\<close>

definition service_up :: "json \<Rightarrow> net" where
  "service_up v = service_answering models_body (completion_body v)"

text \<open>A service that numbers its models and sends no content.\<close>

definition service_untyped :: net where
  "service_untyped =
     service_answering (JObj [(''data'', JArr [JObj [(''id'', JInt 7)]])]) (completion_body JNull)"

fun is_str :: "json \<Rightarrow> bool" where
  "is_str (JStr s) = True"
| "is_str v = False"

text \<open>Answers every request with status \<open>st\<close>.\<close>

definition service_refusing :: "int \<Rightarrow> net" where
  "service_refusing st = \<lparr>http_get = (\<lambda>url. Inr (error_response st ''overloaded'')),
                           http_post = (\<lambda>url p. Inr (error_response st ''overloaded''))\<rparr>"

text \<open>Answers every request with status \<open>st\<close> and a body that cannot be decoded as text.\<close>

definition service_unreadable :: "int \<Rightarrow> net" where
  "service_unreadable st =
     (let r = \<lparr>status = st, json_body = Inl (Exn ''ContentTypeError'' ''unexpected mimetype''),
                text_body = Inl (Exn ''UnicodeDecodeError'' ''invalid start byte'')\<rparr>
      in \<lparr>http_get = (\<lambda>url. Inr r), http_post = (\<lambda>url p. Inr r)\<rparr>)"

text \<open>Answers every request with status 200 and a body that is not JSON.\<close>

definition service_not_json :: net where
  "service_not_json =
     (let r = \<lparr>status = 200, json_body = Inl (Exn ''ContentTypeError'' ''unexpected mimetype''),
                text_body = Inr ''<html></html>''\<rparr>
      in \<lparr>http_get = (\<lambda>url. Inr r), http_post = (\<lambda>url p. Inr r)\<rparr>)"

definition local_client :: client where
  "local_client = PrivateModeClient ''http://localhost:8080''"

definition msg_from :: "string \<Rightarrow> string \<Rightarrow> message" where
  "msg_from s t = \<lparr>source = s, text = Some t\<rparr>"

text \<open>Six messages of one sender, received while the service is down.\<close>

definition six_messages :: "(message \<times> net) list" where
  "six_messages =
     map (\<lambda>t. (msg_from ''+100'' t, service_down))
       [''one'', ''two'', ''three'', ''four'', ''five'', ''six'']"

section \<open>The client returns\<close>

lemma list_models_returns: "\<exists>ids. fst (list_models c n) = Inr ids"
  by (simp add: list_models_def split: sum.splits)

lemma list_models_events: "snd (list_models c n) = [HttpGet (base_url c @ ''/v1/models'')]"
  by (simp add: list_models_def)

lemma list_models_failed:
  "http_get n (base_url c @ ''/v1/models'') = Inl e \<Longrightarrow> fst (list_models c n) = Inr []"
  by (simp add: list_models_def list_models_try_def)

lemma list_models_status:
  "http_get n (base_url c @ ''/v1/models'') = Inr r \<Longrightarrow> status r \<noteq> 200 \<Longrightarrow>
   fst (list_models c n) = Inr []"
  by (simp add: list_models_def list_models_try_def)

lemma list_models_ok:
  "http_get n (base_url c @ ''/v1/models'') = Inr r \<Longrightarrow> status r = 200 \<Longrightarrow>
   json_body r = Inr data \<Longrightarrow>
   fst (list_models c n) = Inr (case model_ids data of Inl e \<Rightarrow> [] | Inr ids \<Rightarrow> ids)"
  by (simp add: list_models_def list_models_try_def split: sum.splits)

lemma post_completion_returns: "\<exists>r. fst (post_completion c n msgs m) = Inr r"
  by (simp add: post_completion_def split: sum.splits)

lemma post_completion_events:
  "snd (post_completion c n msgs m) =
   [HttpPost (base_url c @ ''/v1/chat/completions'') (payload m msgs)]"
  by (simp add: post_completion_def)

lemma post_completion_raised:
  "chat_completion_try c n (payload m msgs) = Inl e \<Longrightarrow>
   fst (post_completion c n msgs m) = Inr (JStr (request_failed_text e))"
  by (simp add: post_completion_def)

lemma post_completion_failed:
  "http_post n (base_url c @ ''/v1/chat/completions'') (payload m msgs) = Inl e \<Longrightarrow>
   fst (post_completion c n msgs m) = Inr (JStr (request_failed_text e))"
  by (simp add: post_completion_def chat_completion_try_def)

lemma post_completion_status:
  "http_post n (base_url c @ ''/v1/chat/completions'') (payload m msgs) = Inr r \<Longrightarrow>
   status r \<noteq> 200 \<Longrightarrow> text_body r = Inr b \<Longrightarrow>
   fst (post_completion c n msgs m) = Inr (JStr (status_error_text (status r)))"
  by (simp add: post_completion_def chat_completion_try_def)

lemma post_completion_ok:
  "http_post n (base_url c @ ''/v1/chat/completions'') (payload m msgs) = Inr r \<Longrightarrow>
   status r = 200 \<Longrightarrow> json_body r = Inr data \<Longrightarrow>
   fst (post_completion c n msgs m) =
     Inr (case first_choice_content data of Inl e \<Rightarrow> JStr (request_failed_text e) | Inr v \<Rightarrow> v)"
  by (simp add: post_completion_def chat_completion_try_def split: sum.splits)

lemma chat_completion_explicit:
  "m \<noteq> [] \<Longrightarrow> chat_completion c n msgs (Some m) = post_completion c n msgs (JStr m)"
  by (simp add: chat_completion_def)

lemma chat_completion_no_models:
  assumes "\<not> truthy mdl" and "fst (list_models c n) = Inr []"
  shows "chat_completion c n msgs mdl =
         (Inr (JStr no_models_text), [HttpGet (base_url c @ ''/v1/models'')])"
proof -
  have "list_models c n = (Inr [], [HttpGet (base_url c @ ''/v1/models'')])"
    using assms(2) list_models_events [of c n] by (cases "list_models c n") simp
  with assms(1) show ?thesis by (simp add: chat_completion_def)
qed

lemma chat_completion_first_model:
  assumes "\<not> truthy mdl" and "fst (list_models c n) = Inr (m # ms)"
  shows "chat_completion c n msgs mdl =
         (fst (post_completion c n msgs m),
          [HttpGet (base_url c @ ''/v1/models''),
           HttpPost (base_url c @ ''/v1/chat/completions'') (payload m msgs)])"
proof -
  have "list_models c n = (Inr (m # ms), [HttpGet (base_url c @ ''/v1/models'')])"
    using assms(2) list_models_events [of c n] by (cases "list_models c n") simp
  with assms(1) show ?thesis
    using post_completion_events [of c n msgs m]
    by (cases "post_completion c n msgs m") (simp add: chat_completion_def)
qed

lemma chat_completion_cases:
  "chat_completion c n msgs mdl = (Inr (JStr no_models_text), [HttpGet (base_url c @ ''/v1/models'')])
   \<or> (\<exists>m. fst (chat_completion c n msgs mdl) = fst (post_completion c n msgs m)
          \<and> snd (chat_completion c n msgs mdl) =
              (if truthy mdl then [] else [HttpGet (base_url c @ ''/v1/models'')])
              @ [HttpPost (base_url c @ ''/v1/chat/completions'') (payload m msgs)])"
proof (cases "truthy mdl")
  case True
  then obtain m where m: "mdl = Some m" "m \<noteq> []" by (cases mdl) auto
  then show ?thesis
    using chat_completion_explicit [of m c n msgs] post_completion_events [of c n msgs "JStr m"]
    by auto
next
  case False
  obtain ids where ids: "fst (list_models c n) = Inr ids"
    using list_models_returns by blast
  show ?thesis
  proof (cases ids)
    case Nil
    with False ids show ?thesis using chat_completion_no_models by blast
  next
    case (Cons m ms)
    with False ids show ?thesis
      using chat_completion_first_model [of mdl c n m ms msgs] by auto
  qed
qed

lemma chat_completion_returns: "\<exists>r. fst (chat_completion c n msgs mdl) = Inr r"
  using chat_completion_cases [of c n msgs mdl] post_completion_returns [of c n msgs]
  by (metis fst_conv)

lemma ids_of_entries: "ids_of (map (\<lambda>i. JObj [(''id'', i)]) ids) = Inr ids"
  by (induction ids) simp_all

lemma model_ids_entries:
  "model_ids (JObj [(''data'', JArr (map (\<lambda>i. JObj [(''id'', i)]) ids))]) = Inr ids"
  by (simp add: model_ids_def ids_of_entries)

lemma first_choice_content_body: "first_choice_content (completion_body v) = Inr v"
  by (simp add: first_choice_content_def completion_body_def)

section \<open>One chat invocation\<close>

lemma history_update:
  "history (cc\<lparr>conversations := (conversations cc)(k \<mapsto> v)\<rparr>) s = (if s = k then v else history cc s)"
  by (simp add: history_def)

lemma with_user_turn_length: "length (with_user_turn h t) \<le> 10"
  by (simp add: with_user_turn_def Let_def)

lemma with_user_turn_last: "\<exists>pre. with_user_turn h t = pre @ [user_turn t]"
proof (cases "length (h @ [user_turn t]) > 10")
  case True
  then have "with_user_turn h t = drop (length h - 9) h @ [user_turn t]"
    by (simp add: with_user_turn_def Let_def)
  then show ?thesis by blast
next
  case False
  then show ?thesis by (simp add: with_user_turn_def Let_def)
qed

lemma chat_handle_truthy:
  assumes "text msg = Some t" and "t \<noteq> []"
  shows "\<exists>r evs.
     chat_completion (privatemode_client cc) n (with_user_turn (history cc (source msg)) t) (model cc)
       = (Inr r, evs) \<and>
     chat_handle cc msg n =
       \<lparr>after = cc\<lparr>conversations := (conversations cc)
                  (source msg \<mapsto> with_user_turn (history cc (source msg)) t @ [assistant_turn r])\<rparr>,
        events = evs @ [Send r], raised = None\<rparr>"
proof -
  let ?h = "with_user_turn (history cc (source msg)) t"
  obtain r where "fst (chat_completion (privatemode_client cc) n ?h (model cc)) = Inr r"
    using chat_completion_returns by blast
  then obtain evs where "chat_completion (privatemode_client cc) n ?h (model cc) = (Inr r, evs)"
    by (cases "chat_completion (privatemode_client cc) n ?h (model cc)") auto
  with assms show ?thesis by (simp add: chat_handle_def Let_def)
qed

lemma chat_handle_falsy:
  "\<not> truthy (text msg) \<Longrightarrow>
   chat_handle cc msg n = \<lparr>after = cc, events = [Send (JStr provide_message_text)], raised = None\<rparr>"
  by (simp add: chat_handle_def)

lemma truthy_text: "truthy x \<longleftrightarrow> (\<exists>t. x = Some t \<and> t \<noteq> [])"
  by (cases x) auto

lemma chat_handle_keeps_settings:
  "privatemode_client (after (chat_handle cc msg n)) = privatemode_client cc
   \<and> model (after (chat_handle cc msg n)) = model cc"
proof (cases "truthy (text msg)")
  case True
  then obtain t where "text msg = Some t" "t \<noteq> []" by (auto simp: truthy_text)
  from chat_handle_truthy [OF this, of cc n] show ?thesis by auto
next
  case False
  then show ?thesis by (simp add: chat_handle_falsy)
qed

lemma reply_snoc: "reply (evs @ [Send r]) = Some r"
  by (induction evs rule: reply.induct) auto

lemma chat_handle_appends:
  assumes "text msg = Some t" and "t \<noteq> []"
  shows "\<exists>r. exchanged msg (events (chat_handle cc msg n)) = [user_turn t, assistant_turn r]
           \<and> (\<forall>s. history (after (chat_handle cc msg n)) s =
                  (if s = source msg then with_user_turn (history cc s) t @ [assistant_turn r]
                   else history cc s))"
proof -
  from chat_handle_truthy [OF assms, of cc n] obtain r evs where
    "chat_handle cc msg n =
       \<lparr>after = cc\<lparr>conversations := (conversations cc)
                  (source msg \<mapsto> with_user_turn (history cc (source msg)) t @ [assistant_turn r])\<rparr>,
        events = evs @ [Send r], raised = None\<rparr>"
    by blast
  with assms show ?thesis
    by (auto simp: exchanged_def reply_snoc history_update)
qed

lemma chat_handle_nothing_exchanged:
  "\<not> truthy (text msg) \<Longrightarrow> exchanged msg evs = [] \<and> after (chat_handle cc msg n) = cc"
  by (cases "text msg") (auto simp: exchanged_def chat_handle_falsy)

section \<open>Sequences of chat invocations\<close>

lemma last_turns_step:
  assumes "h = drop (length T - 11) T"
  shows "with_user_turn h t @ [a] = drop (length (T @ [user_turn t, a]) - 11) (T @ [user_turn t, a])"
  using assms by (auto simp: with_user_turn_def Let_def)

lemma chat_handle_last_turns:
  assumes "\<forall>s. history cc s = drop (length (T s) - 11) (T s)"
  shows "history (after (chat_handle cc msg n)) s =
         drop (length (T s @ (if source msg = s then exchanged msg (events (chat_handle cc msg n)) else [])) - 11)
              (T s @ (if source msg = s then exchanged msg (events (chat_handle cc msg n)) else []))"
proof (cases "truthy (text msg)")
  case True
  then obtain t where t: "text msg = Some t" "t \<noteq> []" by (auto simp: truthy_text)
  from chat_handle_appends [OF t, of cc n] obtain r where
    r: "exchanged msg (events (chat_handle cc msg n)) = [user_turn t, assistant_turn r]"
       "\<And>s. history (after (chat_handle cc msg n)) s =
                  (if s = source msg then with_user_turn (history cc s) t @ [assistant_turn r]
                   else history cc s)"
    by blast
  show ?thesis
  proof (cases "source msg = s")
    case True
    with r assms last_turns_step [of "history cc s" "T s" t "assistant_turn r"] show ?thesis
      by simp
  next
    case False
    with r assms show ?thesis by auto
  qed
next
  case False
  with assms chat_handle_nothing_exchanged [OF False, of "events (chat_handle cc msg n)" cc n]
  show ?thesis by simp
qed

lemma chat_run_last_turns:
  assumes "\<forall>s. history cc s = drop (length (T s) - 11) (T s)"
  shows "history (chat_run cc run) s =
         drop (length (T s @ transcript cc s run) - 11) (T s @ transcript cc s run)"
  using assms
proof (induction run arbitrary: cc T)
  case Nil
  then show ?case by simp
next
  case (Cons step run)
  obtain msg n where step: "step = (msg, n)" by (cases step)
  let ?T = "\<lambda>s. T s @ (if source msg = s then exchanged msg (events (chat_handle cc msg n)) else [])"
  have "\<forall>s. history (after (chat_handle cc msg n)) s = drop (length (?T s) - 11) (?T s)"
    using chat_handle_last_turns [OF Cons.prems] by blast
  from Cons.IH [OF this] show ?case
    by (simp add: step)
qed

lemma chat_handle_bound:
  assumes "\<forall>s. length (history cc s) \<le> 11"
  shows "length (history (after (chat_handle cc msg n)) s) \<le> 11"
proof (cases "truthy (text msg)")
  case True
  then obtain t where t: "text msg = Some t" "t \<noteq> []" by (auto simp: truthy_text)
  from chat_handle_appends [OF t, of cc n] with_user_turn_length [of "history cc s" t] assms
  show ?thesis by auto
next
  case False
  with assms chat_handle_nothing_exchanged [OF False, of "[]" cc n] show ?thesis by simp
qed

lemma chat_run_bound:
  assumes "\<forall>s. length (history cc s) \<le> 11"
  shows "length (history (chat_run cc run) s) \<le> 11"
  using assms
proof (induction run arbitrary: cc)
  case Nil
  then show ?case by simp
next
  case (Cons step run)
  obtain msg n where step: "step = (msg, n)" by (cases step)
  have "\<forall>s. length (history (after (chat_handle cc msg n)) s) \<le> 11"
    using chat_handle_bound [OF Cons.prems] by blast
  from Cons.IH [OF this] show ?case by (simp add: step)
qed

lemma history_initial: "history (ChatCommand c mdl) s = []"
  by (simp add: history_def ChatCommand_def)

lemma chat_completion_try_failed:
  "http_post n (base_url c @ ''/v1/chat/completions'') p = Inl e \<Longrightarrow>
   chat_completion_try c n p = Inl e"
  by (simp add: chat_completion_try_def)

lemma chat_completion_try_unreadable:
  "http_post n (base_url c @ ''/v1/chat/completions'') p = Inr r \<Longrightarrow> status r \<noteq> 200 \<Longrightarrow>
   text_body r = Inl e \<Longrightarrow> chat_completion_try c n p = Inl e"
  by (simp add: chat_completion_try_def)

lemma chat_completion_try_not_json:
  "http_post n (base_url c @ ''/v1/chat/completions'') p = Inr r \<Longrightarrow> status r = 200 \<Longrightarrow>
   json_body r = Inl e \<Longrightarrow> chat_completion_try c n p = Inl e"
  by (simp add: chat_completion_try_def)

lemma chat_completion_try_body:
  "http_post n (base_url c @ ''/v1/chat/completions'') p = Inr r \<Longrightarrow> status r = 200 \<Longrightarrow>
   json_body r = Inr data \<Longrightarrow> chat_completion_try c n p = first_choice_content data"
  by (simp add: chat_completion_try_def)

lemma list_models_not_json:
  "http_get n (base_url c @ ''/v1/models'') = Inr r \<Longrightarrow> status r = 200 \<Longrightarrow>
   json_body r = Inl e \<Longrightarrow> fst (list_models c n) = Inr []"
  by (simp add: list_models_def list_models_try_def)

lemma chat_completion_posts:
  assumes "truthy mdl \<or> fst (list_models c n) \<noteq> Inr []"
  shows "\<exists>m. fst (chat_completion c n msgs mdl) = fst (post_completion c n msgs m)"
proof (cases "truthy mdl")
  case True
  then obtain m where "mdl = Some m" "m \<noteq> []" by (auto simp: truthy_text)
  then show ?thesis using chat_completion_explicit [of m c n msgs] by auto
next
  case False
  obtain ids where ids: "fst (list_models c n) = Inr ids"
    using list_models_returns by blast
  with assms False obtain m ms where "ids = m # ms" by (cases ids) auto
  with False ids chat_completion_first_model [of mdl c n m ms msgs] show ?thesis by auto
qed

lemma chat_completion_raised:
  assumes "truthy mdl \<or> fst (list_models c n) \<noteq> Inr []"
    and "\<forall>p. chat_completion_try c n p = Inl e"
  shows "fst (chat_completion c n msgs mdl) = Inr (JStr (request_failed_text e))"
  using chat_completion_posts [OF assms(1), of msgs] assms(2) post_completion_raised [of c n _ msgs e]
  by auto

lemma chat_completion_refused:
  assumes "truthy mdl \<or> fst (list_models c n) \<noteq> Inr []"
    and "\<forall>p. \<exists>resp b. http_post n (base_url c @ ''/v1/chat/completions'') p = Inr resp
                \<and> status resp = st \<and> text_body resp = Inr b"
    and "st \<noteq> 200"
  shows "fst (chat_completion c n msgs mdl) = Inr (JStr (status_error_text st))"
proof -
  have "fst (post_completion c n msgs m) = Inr (JStr (status_error_text st))" for m
  proof -
    from assms(2) obtain resp b where
      "http_post n (base_url c @ ''/v1/chat/completions'') (payload m msgs) = Inr resp"
      "status resp = st" "text_body resp = Inr b"
      by blast
    with assms(3) post_completion_status [of n c m msgs resp b] show ?thesis by simp
  qed
  with chat_completion_posts [OF assms(1), of msgs] show ?thesis by auto
qed

section \<open>The two stretches of a chat invocation\<close>

lemma schedules_three:
  "schedules a ra b rb =
     [[AppendUser a, AppendAssistant a ra, AppendUser b, AppendAssistant b rb],
      [AppendUser a, AppendUser b, AppendAssistant a ra, AppendAssistant b rb],
      [AppendUser a, AppendUser b, AppendAssistant b rb, AppendAssistant a ra]]"
  by (simp add: schedules_def)

lemma with_user_turn_append:
  "length ys < 10 \<Longrightarrow>
   with_user_turn (p @ ys) t = drop (length p + length ys - 9) p @ ys @ [user_turn t]"
  by (auto simp: with_user_turn_def Let_def)

lemma with_user_turn_kept:
  assumes "length ys < 10"
  shows "with_user_turn (drop (length h - 9) h @ ys) t =
         drop (length h - (9 - length ys)) h @ ys @ [user_turn t]"
proof -
  let ?p = "drop (length h - 9) h"
  have "length ?p + length ys - 9 + (length h - 9) = length h - (9 - length ys)"
    using assms by simp
  then have "drop (length ?p + length ys - 9) ?p = drop (length h - (9 - length ys)) h"
    by (simp only: drop_drop)
  with with_user_turn_append [OF assms, of ?p t] show ?thesis
    by simp
qed

lemma step_user_conversations:
  "text msg = Some t \<Longrightarrow> t \<noteq> [] \<Longrightarrow>
   conversations (step_user cc msg) =
     (conversations cc)(source msg \<mapsto> with_user_turn (history cc (source msg)) t)"
  by (simp add: step_user_def)

lemma step_assistant_present:
  "conversations cc (source msg) = Some h \<Longrightarrow>
   step_assistant cc msg r =
     Inr (cc\<lparr>conversations := (conversations cc)(source msg \<mapsto> h @ [assistant_turn r])\<rparr>)"
  by (simp add: step_assistant_def)

lemma chat_handle_as_steps:
  assumes "text msg = Some t" and "t \<noteq> []"
  shows "\<exists>r. fst (chat_completion (privatemode_client cc) n
                 (history (step_user cc msg) (source msg)) (model cc)) = Inr r
           \<and> run_steps cc [AppendUser msg, AppendAssistant msg r] = Inr (after (chat_handle cc msg n))"
proof -
  let ?h = "with_user_turn (history cc (source msg)) t"
  from chat_handle_truthy [OF assms, of cc n] obtain r evs where
    cc: "chat_completion (privatemode_client cc) n ?h (model cc) = (Inr r, evs)" and
    out: "after (chat_handle cc msg n) =
       cc\<lparr>conversations := (conversations cc)(source msg \<mapsto> ?h @ [assistant_turn r])\<rparr>"
    by force
  have h: "history (step_user cc msg) (source msg) = ?h"
    using assms by (simp add: step_user_def history_def)
  have "step_assistant (step_user cc msg) msg r = Inr (after (chat_handle cc msg n))"
    using assms by (simp add: step_assistant_def step_user_def out)
  with cc h show ?thesis
    by auto
qed

lemma history_after_sequential:
  assumes "source a = s" "source b = s" "text a = Some ta" "ta \<noteq> []" "text b = Some tb" "tb \<noteq> []"
  shows "history_after cc [AppendUser a, AppendAssistant a ra, AppendUser b, AppendAssistant b rb] s' =
         Inr (if s' = s then
                drop (length (history cc s) - 7) (history cc s)
                  @ [user_turn ta, assistant_turn ra, user_turn tb, assistant_turn rb]
              else history cc s')"
proof -
  let ?h = "history cc s"
  have ua: "with_user_turn ?h ta = drop (length ?h - 9) ?h @ [user_turn ta]"
    using with_user_turn_append [of "[]" ?h ta] by simp
  have ub: "with_user_turn (drop (length ?h - 9) ?h @ [user_turn ta, assistant_turn ra]) tb =
            drop (length ?h - 7) ?h @ [user_turn ta, assistant_turn ra, user_turn tb]"
    using with_user_turn_kept [of "[user_turn ta, assistant_turn ra]" ?h tb]
    by simp
  show ?thesis
    using assms ua ub
    by (simp add: history_after_def step_user_def step_assistant_def history_def)
qed

lemma history_after_interleaved:
  assumes "source a = s" "source b = s" "text a = Some ta" "ta \<noteq> []" "text b = Some tb" "tb \<noteq> []"
  shows "history_after cc [AppendUser a, AppendUser b, AppendAssistant a ra, AppendAssistant b rb] s' =
         Inr (if s' = s then
                drop (length (history cc s) - 8) (history cc s)
                  @ [user_turn ta, user_turn tb, assistant_turn ra, assistant_turn rb]
              else history cc s')"
    and "history_after cc [AppendUser a, AppendUser b, AppendAssistant b rb, AppendAssistant a ra] s' =
         Inr (if s' = s then
                drop (length (history cc s) - 8) (history cc s)
                  @ [user_turn ta, user_turn tb, assistant_turn rb, assistant_turn ra]
              else history cc s')"
proof -
  let ?h = "history cc s"
  have ua: "with_user_turn ?h ta = drop (length ?h - 9) ?h @ [user_turn ta]"
    using with_user_turn_append [of "[]" ?h ta] by simp
  have ub: "with_user_turn (drop (length ?h - 9) ?h @ [user_turn ta]) tb =
            drop (length ?h - 8) ?h @ [user_turn ta, user_turn tb]"
    using with_user_turn_kept [of "[user_turn ta]" ?h tb]
    by simp
  show "history_after cc [AppendUser a, AppendUser b, AppendAssistant a ra, AppendAssistant b rb] s' =
         Inr (if s' = s then
                drop (length (history cc s) - 8) (history cc s)
                  @ [user_turn ta, user_turn tb, assistant_turn ra, assistant_turn rb]
              else history cc s')"
    using assms ua ub
    by (simp add: history_after_def step_user_def step_assistant_def history_def)
  show "history_after cc [AppendUser a, AppendUser b, AppendAssistant b rb, AppendAssistant a ra] s' =
         Inr (if s' = s then
                drop (length (history cc s) - 8) (history cc s)
                  @ [user_turn ta, user_turn tb, assistant_turn rb, assistant_turn ra]
              else history cc s')"
    using assms ua ub
    by (simp add: history_after_def step_user_def step_assistant_def history_def)
qed


section \<open>Model selection\<close>

text \<open>
  C4. When \<^verbatim>\<open>chat_completion\<close> is called without a model (\<^verbatim>\<open>None\<close> or the empty
  string) and \<^verbatim>\<open>list_models\<close> returns the empty list, the result is exactly the literal
  "Sorry, no models are available at the moment." and the only request issued is the GET
  of the model listing: nothing is posted to the completion endpoint. When the list is
  not empty, the one completion request is posted with the first model of the list, and
  its outcome is the result.
\<close>

theorem chat_completion_model_fallback:
  assumes "\<not> truthy mdl"
  shows "(fst (list_models c n) = Inr [] \<longrightarrow>
            chat_completion c n msgs mdl =
              (Inr (JStr ''Sorry, no models are available at the moment.''),
               [HttpGet (base_url c @ ''/v1/models'')]))
       \<and> (\<forall>m ms. fst (list_models c n) = Inr (m # ms) \<longrightarrow>
            chat_completion c n msgs mdl =
              (fst (post_completion c n msgs m),
               [HttpGet (base_url c @ ''/v1/models''),
                HttpPost (base_url c @ ''/v1/chat/completions'') (payload m msgs)]))"
  using assms chat_completion_no_models [of mdl c n msgs]
    chat_completion_first_model [of mdl c n _ _ msgs]
  by (simp add: no_models_text_def)

theorem chat_completion_model_fallback_witness:
  "chat_completion local_client service_down [user_turn ''hello''] None =
     (Inr (JStr ''Sorry, no models are available at the moment.''),
      [HttpGet ''http://localhost:8080/v1/models''])
   \<and> chat_completion local_client (service_up (JStr ''hi there'')) [user_turn ''hello''] (Some []) =
     (Inr (JStr ''hi there''),
      [HttpGet ''http://localhost:8080/v1/models'',
       HttpPost ''http://localhost:8080/v1/chat/completions''
         (payload (JStr ''m1'') [user_turn ''hello''])])"
proof -
  have url: "base_url local_client = ''http://localhost:8080''"
    by code_simp
  have none: "\<not> truthy None" and empty: "\<not> truthy (Some [])"
    by simp_all
  have down: "fst (list_models local_client service_down) = Inr []"
    by code_simp
  have up: "fst (list_models local_client (service_up (JStr ''hi there''))) =
              Inr [JStr ''m1'', JStr ''m2'']"
    by code_simp
  have posted: "fst (post_completion local_client (service_up (JStr ''hi there''))
                  [user_turn ''hello''] (JStr ''m1'')) = Inr (JStr ''hi there'')"
    by code_simp
  from chat_completion_model_fallback [OF none, of local_client service_down "[user_turn ''hello'']"]
    chat_completion_model_fallback [OF empty, of local_client "service_up (JStr ''hi there'')"
      "[user_turn ''hello'']"]
  show ?thesis
    using down up posted by (simp add: url)
qed

section \<open>The completion request\<close>

text \<open>
  C6. Every completion request that \<^verbatim>\<open>chat_completion\<close> issues goes to the completion
  endpoint and carries the whole list of messages it was given, the temperature 0.7 and
  max_tokens 1000. (The temperature is the decimal literal of the source, 7/10; the
  payload is handed to the HTTP library as it is.) When a model that is not the empty
  string is given, the call issues exactly one request, the POST whose model field is that
  string, whatever the service would list: the model listing is not even asked.
\<close>

theorem completion_request_payload:
  "(\<forall>ev \<in> set (snd (chat_completion c n msgs mdl)). \<forall>url p. ev = HttpPost url p \<longrightarrow>
      url = base_url c @ ''/v1/chat/completions'' \<and>
      (\<exists>m. p = JObj [(''model'', m), (''messages'', JArr msgs),
                     (''temperature'', JFloat (7 / 10)), (''max_tokens'', JInt 1000)]))
   \<and> (m \<noteq> [] \<longrightarrow>
        snd (chat_completion c n msgs (Some m)) =
          [HttpPost (base_url c @ ''/v1/chat/completions'')
             (JObj [(''model'', JStr m), (''messages'', JArr msgs),
                    (''temperature'', JFloat (7 / 10)), (''max_tokens'', JInt 1000)])])"
proof (intro conjI ballI allI impI)
  fix ev url p
  assume ev: "ev \<in> set (snd (chat_completion c n msgs mdl))" and post: "ev = HttpPost url p"
  from chat_completion_cases [of c n msgs mdl] ev post
  have "\<exists>m. url = base_url c @ ''/v1/chat/completions'' \<and> p = payload m msgs"
    by (auto split: if_splits)
  then show "url = base_url c @ ''/v1/chat/completions''"
    and "\<exists>m. p = JObj [(''model'', m), (''messages'', JArr msgs),
                     (''temperature'', JFloat (7 / 10)), (''max_tokens'', JInt 1000)]"
    by (auto simp: payload_def)
next
  assume "m \<noteq> []"
  then show "snd (chat_completion c n msgs (Some m)) =
          [HttpPost (base_url c @ ''/v1/chat/completions'')
             (JObj [(''model'', JStr m), (''messages'', JArr msgs),
                    (''temperature'', JFloat (7 / 10)), (''max_tokens'', JInt 1000)])]"
    using chat_completion_explicit [of m c n msgs] post_completion_events [of c n msgs "JStr m"]
    by (simp add: payload_def)
qed

theorem completion_request_payload_witness:
  "HttpPost ''http://localhost:8080/v1/chat/completions''
      (JObj [(''model'', JStr ''m1''), (''messages'', JArr [user_turn ''hello'']),
             (''temperature'', JFloat (7 / 10)), (''max_tokens'', JInt 1000)])
     \<in> set (snd (chat_completion local_client (service_up (JStr ''hi there'')) [user_turn ''hello''] None))
   \<and> (\<exists>m. JObj [(''model'', JStr ''m1''), (''messages'', JArr [user_turn ''hello'']),
                  (''temperature'', JFloat (7 / 10)), (''max_tokens'', JInt 1000)] =
            JObj [(''model'', m), (''messages'', JArr [user_turn ''hello'']),
                  (''temperature'', JFloat (7 / 10)), (''max_tokens'', JInt 1000)])
   \<and> ''m1'' \<noteq> []
   \<and> snd (chat_completion local_client service_down [user_turn ''hello''] (Some ''m1'')) =
       [HttpPost ''http://localhost:8080/v1/chat/completions''
          (JObj [(''model'', JStr ''m1''), (''messages'', JArr [user_turn ''hello'']),
                 (''temperature'', JFloat (7 / 10)), (''max_tokens'', JInt 1000)])]"
proof -
  let ?p = "JObj [(''model'', JStr ''m1''), (''messages'', JArr [user_turn ''hello'']),
                  (''temperature'', JFloat (7 / 10)), (''max_tokens'', JInt 1000)]"
  have url: "base_url local_client = ''http://localhost:8080''"
    by code_simp
  have issued: "HttpPost ''http://localhost:8080/v1/chat/completions'' ?p
      \<in> set (snd (chat_completion local_client (service_up (JStr ''hi there'')) [user_turn ''hello''] None))"
    by code_simp
  have m1: "''m1'' \<noteq> []"
    by simp
  have carried: "\<exists>m. ?p = JObj [(''model'', m), (''messages'', JArr [user_turn ''hello'']),
                  (''temperature'', JFloat (7 / 10)), (''max_tokens'', JInt 1000)]"
    using completion_request_payload
      [of local_client "service_up (JStr ''hi there'')" "[user_turn ''hello'']" None "''m1''",
       THEN conjunct1, THEN bspec, OF issued]
    by blast
  have explicit: "snd (chat_completion local_client service_down [user_turn ''hello''] (Some ''m1''))
      = [HttpPost (base_url local_client @ ''/v1/chat/completions'') ?p]"
    using completion_request_payload
      [of local_client service_down "[user_turn ''hello'']" None "''m1''", THEN conjunct2] m1
    by blast
  have "''http://localhost:8080'' @ ''/v1/chat/completions'' = ''http://localhost:8080/v1/chat/completions''"
    by simp
  with explicit issued carried m1 show ?thesis
    unfolding url by simp
qed


section \<open>Failures become results\<close>

text \<open>
  C5. The claim has \<^verbatim>\<open>list_models\<close> return strings and \<^verbatim>\<open>chat_completion\<close> a string
  for every outcome, as the signature \<^verbatim>\<open>-> str\<close> of \<^verbatim>\<open>chat_completion\<close> declares.
  The code does not: neither method looks at the type of what the service sent, and for a
  service that answers 200 with numbered models and a null content, \<^verbatim>\<open>list_models\<close>
  returns the numbers and \<^verbatim>\<open>chat_completion\<close> returns \<^verbatim>\<open>None\<close>.
\<close>

theorem client_results_untyped:
  "fst (list_models local_client service_untyped) = Inr [JInt 7]
   \<and> \<not> list_all is_str [JInt 7]
   \<and> fst (chat_completion local_client service_untyped [user_turn ''hello''] (Some ''m1'')) = Inr JNull
   \<and> \<not> is_str JNull"
  by code_simp

text \<open>
  What holds of the two methods for every outcome of an exchange. Neither raises.
  \<^verbatim>\<open>list_models\<close> returns the empty list when the request raises, when the status is
  not 200 and when the body of a 200 response is not JSON; otherwise what the expression
  over the body yields, which for a list of entries is their id values as sent.
  \<^verbatim>\<open>chat_completion\<close> returns the no-models literal or the outcome of the request it
  posted, which is: the literal with the description of the exception when anything
  raises in the exchange (the request, reading the text of a response that is not 200,
  decoding a 200 body, a body without choices); the literal with the status code when a
  response with a status other than 200 was received and read; on status 200 the content
  of the message of the first choice, whatever follows it in the body.
\<close>

theorem client_never_raises:
  "(\<exists>ids. fst (list_models c n) = Inr ids)
   \<and> (\<forall>e. http_get n (base_url c @ ''/v1/models'') = Inl e \<longrightarrow> fst (list_models c n) = Inr [])
   \<and> (\<forall>r. http_get n (base_url c @ ''/v1/models'') = Inr r \<and> status r \<noteq> 200 \<longrightarrow>
          fst (list_models c n) = Inr [])
   \<and> (\<forall>r data. http_get n (base_url c @ ''/v1/models'') = Inr r \<and> status r = 200
          \<and> json_body r = Inr data \<longrightarrow>
          fst (list_models c n) = Inr (case model_ids data of Inl e \<Rightarrow> [] | Inr ids \<Rightarrow> ids))
   \<and> (\<forall>ids. model_ids (JObj [(''data'', JArr (map (\<lambda>i. JObj [(''id'', i)]) ids))]) = Inr ids)
   \<and> (\<exists>v. fst (chat_completion c n msgs mdl) = Inr v)
   \<and> (fst (chat_completion c n msgs mdl) = Inr (JStr ''Sorry, no models are available at the moment.'')
        \<or> (\<exists>m. fst (chat_completion c n msgs mdl) = fst (post_completion c n msgs m)))
   \<and> (\<forall>m. m \<noteq> [] \<longrightarrow> chat_completion c n msgs (Some m) = post_completion c n msgs (JStr m))
   \<and> (\<forall>m e. chat_completion_try c n (payload m msgs) = Inl e \<longrightarrow>
          fst (post_completion c n msgs m) =
            Inr (JStr (''Sorry, I couldn'' @ [CHR 0x27] @ ''t process your request: '' @ exn_str e)))
   \<and> (\<forall>m e. http_post n (base_url c @ ''/v1/chat/completions'') (payload m msgs) = Inl e \<longrightarrow>
          chat_completion_try c n (payload m msgs) = Inl e)
   \<and> (\<forall>m r b. http_post n (base_url c @ ''/v1/chat/completions'') (payload m msgs) = Inr r
          \<and> status r \<noteq> 200 \<and> text_body r = Inr b \<longrightarrow>
          fst (post_completion c n msgs m) =
            Inr (JStr (''Sorry, I encountered an error: '' @ str_int (status r))))
   \<and> (\<forall>m r data. http_post n (base_url c @ ''/v1/chat/completions'') (payload m msgs) = Inr r
          \<and> status r = 200 \<and> json_body r = Inr data \<longrightarrow>
          fst (post_completion c n msgs m) =
            Inr (case first_choice_content data of
                   Inl e \<Rightarrow> JStr (''Sorry, I couldn'' @ [CHR 0x27] @ ''t process your request: '' @ exn_str e)
                 | Inr v \<Rightarrow> v))
   \<and> (\<forall>r e. http_get n (base_url c @ ''/v1/models'') = Inr r \<and> status r = 200
          \<and> json_body r = Inl e \<longrightarrow> fst (list_models c n) = Inr [])
   \<and> (\<forall>m r e. http_post n (base_url c @ ''/v1/chat/completions'') (payload m msgs) = Inr r
          \<and> status r \<noteq> 200 \<and> text_body r = Inl e \<longrightarrow>
          fst (post_completion c n msgs m) =
            Inr (JStr (''Sorry, I couldn'' @ [CHR 0x27] @ ''t process your request: '' @ exn_str e)))
   \<and> (\<forall>m r e. http_post n (base_url c @ ''/v1/chat/completions'') (payload m msgs) = Inr r
          \<and> status r = 200 \<and> json_body r = Inl e \<longrightarrow>
          fst (post_completion c n msgs m) =
            Inr (JStr (''Sorry, I couldn'' @ [CHR 0x27] @ ''t process your request: '' @ exn_str e)))
   \<and> (\<forall>v mfields cfields more fields.
          first_choice_content
            (JObj ((''choices'',
                    JArr (JObj ((''message'', JObj ((''content'', v) # mfields)) # cfields) # more))
                   # fields)) = Inr v)
   \<and> first_choice_content (JObj [(''choices'', JArr [])]) =
          Inl (Exn ''IndexError'' ''list index out of range'')
   \<and> (\<forall>v. first_choice_content (completion_body v) = Inr v)"
proof (intro conjI)
  show "\<exists>ids. fst (list_models c n) = Inr ids"
    by (rule list_models_returns)
  show "\<forall>e. http_get n (base_url c @ ''/v1/models'') = Inl e \<longrightarrow> fst (list_models c n) = Inr []"
    by (simp add: list_models_failed)
  show "\<forall>r. http_get n (base_url c @ ''/v1/models'') = Inr r \<and> status r \<noteq> 200 \<longrightarrow>
          fst (list_models c n) = Inr []"
    by (simp add: list_models_status)
  show "\<forall>r data. http_get n (base_url c @ ''/v1/models'') = Inr r \<and> status r = 200
          \<and> json_body r = Inr data \<longrightarrow>
          fst (list_models c n) = Inr (case model_ids data of Inl e \<Rightarrow> [] | Inr ids \<Rightarrow> ids)"
    using list_models_ok [of n c] by blast
  show "\<forall>ids. model_ids (JObj [(''data'', JArr (map (\<lambda>i. JObj [(''id'', i)]) ids))]) = Inr ids"
    by (simp add: model_ids_entries)
  show "\<exists>v. fst (chat_completion c n msgs mdl) = Inr v"
    by (rule chat_completion_returns)
  show "fst (chat_completion c n msgs mdl) = Inr (JStr ''Sorry, no models are available at the moment.'')
        \<or> (\<exists>m. fst (chat_completion c n msgs mdl) = fst (post_completion c n msgs m))"
    using chat_completion_cases [of c n msgs mdl] by (auto simp: no_models_text_def)
  show "\<forall>m. m \<noteq> [] \<longrightarrow> chat_completion c n msgs (Some m) = post_completion c n msgs (JStr m)"
    by (simp add: chat_completion_explicit)
  show "\<forall>m e. chat_completion_try c n (payload m msgs) = Inl e \<longrightarrow>
          fst (post_completion c n msgs m) =
            Inr (JStr (''Sorry, I couldn'' @ [CHR 0x27] @ ''t process your request: '' @ exn_str e))"
    using post_completion_raised [of c n _ msgs] by (simp add: request_failed_text_def)
  show "\<forall>m e. http_post n (base_url c @ ''/v1/chat/completions'') (payload m msgs) = Inl e \<longrightarrow>
          chat_completion_try c n (payload m msgs) = Inl e"
    by (simp add: chat_completion_try_def)
  show "\<forall>m r b. http_post n (base_url c @ ''/v1/chat/completions'') (payload m msgs) = Inr r
          \<and> status r \<noteq> 200 \<and> text_body r = Inr b \<longrightarrow>
          fst (post_completion c n msgs m) =
            Inr (JStr (''Sorry, I encountered an error: '' @ str_int (status r)))"
    using post_completion_status [of n c _ msgs] by (auto simp: status_error_text_def)
  show "\<forall>m r data. http_post n (base_url c @ ''/v1/chat/completions'') (payload m msgs) = Inr r
          \<and> status r = 200 \<and> json_body r = Inr data \<longrightarrow>
          fst (post_completion c n msgs m) =
            Inr (case first_choice_content data of
                   Inl e \<Rightarrow> JStr (''Sorry, I couldn'' @ [CHR 0x27] @ ''t process your request: '' @ exn_str e)
                 | Inr v \<Rightarrow> v)"
    using post_completion_ok [of n c _ msgs]
    by (auto simp: request_failed_text_def split: sum.splits)
  show "\<forall>v. first_choice_content (completion_body v) = Inr v"
    by (simp add: first_choice_content_body)  show "(\<forall>r e. http_get n (base_url c @ ''/v1/models'') = Inr r \<and> status r = 200
          \<and> json_body r = Inl e \<longrightarrow> fst (list_models c n) = Inr [])"
    using list_models_not_json [of n c] by blast
  show "(\<forall>m r e. http_post n (base_url c @ ''/v1/chat/completions'') (payload m msgs) = Inr r
          \<and> status r \<noteq> 200 \<and> text_body r = Inl e \<longrightarrow>
          fst (post_completion c n msgs m) =
            Inr (JStr (''Sorry, I couldn'' @ [CHR 0x27] @ ''t process your request: '' @ exn_str e)))"
    using chat_completion_try_unreadable [of n c] post_completion_raised [of c n _ msgs]
    by (auto simp: request_failed_text_def)
  show "(\<forall>m r e. http_post n (base_url c @ ''/v1/chat/completions'') (payload m msgs) = Inr r
          \<and> status r = 200 \<and> json_body r = Inl e \<longrightarrow>
          fst (post_completion c n msgs m) =
            Inr (JStr (''Sorry, I couldn'' @ [CHR 0x27] @ ''t process your request: '' @ exn_str e)))"
    using chat_completion_try_not_json [of n c] post_completion_raised [of c n _ msgs]
    by (auto simp: request_failed_text_def)
  show "(\<forall>v mfields cfields more fields.
          first_choice_content
            (JObj ((''choices'',
                    JArr (JObj ((''message'', JObj ((''content'', v) # mfields)) # cfields) # more))
                   # fields)) = Inr v)"
    by (simp add: first_choice_content_def)
  show "first_choice_content (JObj [(''choices'', JArr [])]) =
          Inl (Exn ''IndexError'' ''list index out of range'')"
    by (simp add: first_choice_content_def)
qed


theorem client_never_raises_witness:
  "fst (list_models local_client service_down) = Inr []
   \<and> fst (list_models local_client (service_refusing 503)) = Inr []
   \<and> fst (list_models local_client service_not_json) = Inr []
   \<and> fst (list_models local_client (service_up (JStr ''hi there''))) = Inr [JStr ''m1'', JStr ''m2'']
   \<and> fst (chat_completion local_client service_down [user_turn ''hello''] (Some ''m1'')) =
        Inr (JStr (''Sorry, I couldn'' @ [CHR 0x27] @ ''t process your request: Cannot connect to host''))
   \<and> fst (chat_completion local_client (service_refusing 503) [user_turn ''hello''] (Some ''m1'')) =
        Inr (JStr ''Sorry, I encountered an error: 503'')
   \<and> fst (chat_completion local_client (service_unreadable 502) [user_turn ''hello''] (Some ''m1'')) =
        Inr (JStr (''Sorry, I couldn'' @ [CHR 0x27] @ ''t process your request: invalid start byte''))
   \<and> fst (chat_completion local_client service_not_json [user_turn ''hello''] (Some ''m1'')) =
        Inr (JStr (''Sorry, I couldn'' @ [CHR 0x27] @ ''t process your request: unexpected mimetype''))
   \<and> fst (chat_completion local_client (service_up (JStr ''hi there'')) [user_turn ''hello''] (Some ''m1'')) =
        Inr (JStr ''hi there'')"
proof -
  let ?c = local_client and ?msgs = "[user_turn ''hello'']" and ?m = "JStr ''m1''"
  let ?models = "base_url ?c @ ''/v1/models''" and ?chat = "base_url ?c @ ''/v1/chat/completions''"
  let ?up = "service_up (JStr ''hi there'')"
  note get_failed = client_never_raises [THEN conjunct2, THEN conjunct1, rule_format]
  note get_refused = client_never_raises [THEN conjunct2, THEN conjunct2, THEN conjunct1, rule_format]
  note get_ok = client_never_raises [THEN conjunct2, THEN conjunct2, THEN conjunct2, THEN conjunct1, rule_format]
  note explicit = client_never_raises [THEN conjunct2, THEN conjunct2, THEN conjunct2, THEN conjunct2, THEN conjunct2, THEN conjunct2, THEN conjunct2, THEN conjunct1, rule_format]
  note raised = client_never_raises [THEN conjunct2, THEN conjunct2, THEN conjunct2, THEN conjunct2, THEN conjunct2, THEN conjunct2, THEN conjunct2, THEN conjunct2, THEN conjunct1, rule_format]
  note post_failed = client_never_raises [THEN conjunct2, THEN conjunct2, THEN conjunct2, THEN conjunct2, THEN conjunct2, THEN conjunct2, THEN conjunct2, THEN conjunct2, THEN conjunct2, THEN conjunct1, rule_format]
  note post_refused = client_never_raises [THEN conjunct2, THEN conjunct2, THEN conjunct2, THEN conjunct2, THEN conjunct2, THEN conjunct2, THEN conjunct2, THEN conjunct2, THEN conjunct2, THEN conjunct2, THEN conjunct1, rule_format]
  note post_ok = client_never_raises [THEN conjunct2, THEN conjunct2, THEN conjunct2, THEN conjunct2, THEN conjunct2, THEN conjunct2, THEN conjunct2, THEN conjunct2, THEN conjunct2, THEN conjunct2, THEN conjunct2, THEN conjunct1, rule_format]
  note get_not_json = client_never_raises [THEN conjunct2, THEN conjunct2, THEN conjunct2, THEN conjunct2, THEN conjunct2, THEN conjunct2, THEN conjunct2, THEN conjunct2, THEN conjunct2, THEN conjunct2, THEN conjunct2, THEN conjunct2, THEN conjunct1, rule_format]
  note post_unreadable = client_never_raises [THEN conjunct2, THEN conjunct2, THEN conjunct2, THEN conjunct2, THEN conjunct2, THEN conjunct2, THEN conjunct2, THEN conjunct2, THEN conjunct2, THEN conjunct2, THEN conjunct2, THEN conjunct2, THEN conjunct2, THEN conjunct1, rule_format]
  note post_not_json = client_never_raises [THEN conjunct2, THEN conjunct2, THEN conjunct2, THEN conjunct2, THEN conjunct2, THEN conjunct2, THEN conjunct2, THEN conjunct2, THEN conjunct2, THEN conjunct2, THEN conjunct2, THEN conjunct2, THEN conjunct2, THEN conjunct2, THEN conjunct1, rule_format]
  note body = client_never_raises [THEN conjunct2, THEN conjunct2, THEN conjunct2, THEN conjunct2, THEN conjunct2, THEN conjunct2, THEN conjunct2, THEN conjunct2, THEN conjunct2, THEN conjunct2, THEN conjunct2, THEN conjunct2, THEN conjunct2, THEN conjunct2, THEN conjunct2, THEN conjunct2, THEN conjunct2, rule_format]
  have m1: "''m1'' \<noteq> []"
    by simp
  have refused: "status (error_response 503 ''overloaded'') = 503"
    "status (error_response 503 ''overloaded'') \<noteq> 200"
    "text_body (error_response 503 ''overloaded'') = Inr ''overloaded''"
    by (simp_all add: error_response_def)
  have ok: "status (ok_response d) = 200" "json_body (ok_response d) = Inr d" for d
    by (simp_all add: ok_response_def)
  have listed: "(case model_ids models_body of Inl e \<Rightarrow> [] | Inr ids \<Rightarrow> ids) = [JStr ''m1'', JStr ''m2'']"
    by code_simp
  have str: "exn_str cannot_connect = ''Cannot connect to host''" "str_int 503 = ''503''"
    by code_simp+
  obtain r_unreadable where unreadable:
    "\<And>url. http_get (service_unreadable 502) url = Inr r_unreadable"
    "\<And>url p. http_post (service_unreadable 502) url p = Inr r_unreadable"
    "status r_unreadable \<noteq> 200"
    "text_body r_unreadable = Inl (Exn ''UnicodeDecodeError'' ''invalid start byte'')"
    by (simp add: service_unreadable_def Let_def)
  obtain r_not_json where not_json:
    "\<And>url. http_get service_not_json url = Inr r_not_json"
    "\<And>url p. http_post service_not_json url p = Inr r_not_json"
    "status r_not_json = 200"
    "json_body r_not_json = Inl (Exn ''ContentTypeError'' ''unexpected mimetype'')"
    by (simp add: service_not_json_def Let_def)
  have "fst (list_models ?c service_down) = Inr []"
    by (rule get_failed [where e = cannot_connect]) (simp add: service_down_def)
  moreover have "fst (list_models ?c (service_refusing 503)) = Inr []"
    by (rule get_refused [where r = "error_response 503 ''overloaded''"])
       (simp add: service_refusing_def refused)
  moreover have "fst (list_models ?c service_not_json) = Inr []"
    by (rule get_not_json [where r = r_not_json]) (simp add: not_json)
  moreover have "fst (list_models ?c ?up) = Inr [JStr ''m1'', JStr ''m2'']"
    using get_ok [where n = ?up and c = ?c and r = "ok_response models_body" and data = models_body]
    by (simp add: service_up_def service_answering_def ok listed)
  moreover have "fst (chat_completion ?c service_down ?msgs (Some ''m1'')) =
        Inr (JStr (''Sorry, I couldn'' @ [CHR 0x27] @ ''t process your request: Cannot connect to host''))"
  proof -
    have "chat_completion_try ?c service_down (payload ?m ?msgs) = Inl cannot_connect"
      by (rule post_failed) (simp add: service_down_def)
    from raised [OF this] explicit [OF m1, where c = ?c and n = service_down and msgs = ?msgs] show ?thesis
      by (simp add: str)
  qed
  moreover have "fst (chat_completion ?c (service_refusing 503) ?msgs (Some ''m1'')) =
        Inr (JStr ''Sorry, I encountered an error: 503'')"
    using post_refused [where n = "service_refusing 503" and c = ?c and m = ?m and msgs = ?msgs
        and r = "error_response 503 ''overloaded''" and b = "''overloaded''"]
      explicit [OF m1, where c = ?c and n = "service_refusing 503" and msgs = ?msgs]
    by (simp add: service_refusing_def refused str)
  moreover have "fst (chat_completion ?c (service_unreadable 502) ?msgs (Some ''m1'')) =
        Inr (JStr (''Sorry, I couldn'' @ [CHR 0x27] @ ''t process your request: invalid start byte''))"
    using post_unreadable [where n = "service_unreadable 502" and c = ?c and m = ?m and msgs = ?msgs
        and r = r_unreadable and e = "Exn ''UnicodeDecodeError'' ''invalid start byte''"]
      explicit [OF m1, where c = ?c and n = "service_unreadable 502" and msgs = ?msgs]
    by (simp add: unreadable)
  moreover have "fst (chat_completion ?c service_not_json ?msgs (Some ''m1'')) =
        Inr (JStr (''Sorry, I couldn'' @ [CHR 0x27] @ ''t process your request: unexpected mimetype''))"
    using post_not_json [where n = service_not_json and c = ?c and m = ?m and msgs = ?msgs
        and r = r_not_json and e = "Exn ''ContentTypeError'' ''unexpected mimetype''"]
      explicit [OF m1, where c = ?c and n = service_not_json and msgs = ?msgs]
    by (simp add: not_json)
  moreover have "fst (chat_completion ?c ?up ?msgs (Some ''m1'')) = Inr (JStr ''hi there'')"
    using post_ok [where n = ?up and c = ?c and m = ?m and msgs = ?msgs
        and r = "ok_response (completion_body (JStr ''hi there''))"
        and data = "completion_body (JStr ''hi there'')"]
      explicit [OF m1, where c = ?c and n = ?up and msgs = ?msgs] body [where v = "JStr ''hi there''"]
    by (simp add: service_up_def service_answering_def ok)
  ultimately show ?thesis
    by (intro conjI)
qed

section \<open>What a chat invocation stores\<close>

text \<open>
  C7. For every message whose text is not empty, whatever the service does, the chat
  handler does not raise, and the history it leaves for the sender ends with the user
  turn \<^verbatim>\<open>{"role": "user", "content": text}\<close> followed by the assistant turn
  \<^verbatim>\<open>{"role": "assistant", "content": r}\<close>, after what is kept of the older turns;
  \<open>r\<close> is what \<^verbatim>\<open>chat_completion\<close> returned for the history up to that user turn,
  and it is the reply sent. When no model is configured and none is listed, \<open>r\<close> is the
  no-models literal. Otherwise a completion request is posted, and when it fails \<open>r\<close>
  is the error text: the literal with the description of the exception when the request
  raises, when the text of a response with a status other than 200 cannot be read, when
  the body of a 200 response is not JSON or has no choices; the literal with the status
  code when a response with a status other than 200 was received and read.
\<close>

theorem chat_persists_both_turns:
  assumes "text msg = Some t" and "t \<noteq> []"
  shows "\<exists>r pre evs.
      history (after (chat_handle cc msg n)) (source msg) =
        pre @ [JObj [(''role'', JStr ''user''), (''content'', JStr t)],
               JObj [(''role'', JStr ''assistant''), (''content'', r)]]
      \<and> (\<exists>k. pre = drop k (history cc (source msg)))
      \<and> chat_completion (privatemode_client cc) n
            (pre @ [JObj [(''role'', JStr ''user''), (''content'', JStr t)]]) (model cc) = (Inr r, evs)
      \<and> events (chat_handle cc msg n) = evs @ [Send r]
      \<and> raised (chat_handle cc msg n) = None
      \<and> (\<not> truthy (model cc) \<and> fst (list_models (privatemode_client cc) n) = Inr [] \<longrightarrow>
            r = JStr ''Sorry, no models are available at the moment.'')
      \<and> ((truthy (model cc) \<or> fst (list_models (privatemode_client cc) n) \<noteq> Inr []) \<longrightarrow>
          ((\<forall>p. http_post n (base_url (privatemode_client cc) @ ''/v1/chat/completions'') p = Inl e) \<longrightarrow>
             r = JStr (''Sorry, I couldn'' @ [CHR 0x27] @ ''t process your request: '' @ exn_str e))
        \<and> ((\<forall>p. \<exists>resp b. http_post n (base_url (privatemode_client cc) @ ''/v1/chat/completions'') p
                     = Inr resp \<and> status resp = st \<and> text_body resp = Inr b) \<and> st \<noteq> 200 \<longrightarrow>
             r = JStr (''Sorry, I encountered an error: '' @ str_int st))
        \<and> ((\<forall>p. \<exists>resp. http_post n (base_url (privatemode_client cc) @ ''/v1/chat/completions'') p
                     = Inr resp \<and> status resp \<noteq> 200 \<and> text_body resp = Inl e) \<longrightarrow>
             r = JStr (''Sorry, I couldn'' @ [CHR 0x27] @ ''t process your request: '' @ exn_str e))
        \<and> ((\<forall>p. \<exists>resp. http_post n (base_url (privatemode_client cc) @ ''/v1/chat/completions'') p
                     = Inr resp \<and> status resp = 200 \<and> json_body resp = Inl e) \<longrightarrow>
             r = JStr (''Sorry, I couldn'' @ [CHR 0x27] @ ''t process your request: '' @ exn_str e))
        \<and> ((\<forall>p. \<exists>resp. http_post n (base_url (privatemode_client cc) @ ''/v1/chat/completions'') p
                     = Inr resp \<and> status resp = 200 \<and> json_body resp = Inr (JObj [])) \<longrightarrow>
             r = JStr (''Sorry, I couldn'' @ [CHR 0x27] @ ''t process your request: ''
                       @ [CHR 0x27] @ ''choices'' @ [CHR 0x27])))"
proof -
  let ?h = "with_user_turn (history cc (source msg)) t"
  let ?c = "privatemode_client cc"
  let ?url = "base_url ?c @ ''/v1/chat/completions''"
  let ?posting = "truthy (model cc) \<or> fst (list_models ?c n) \<noteq> Inr []"
  from chat_handle_truthy [OF assms, of cc n] obtain r evs where
    cc: "chat_completion ?c n ?h (model cc) = (Inr r, evs)" and
    out: "chat_handle cc msg n =
       \<lparr>after = cc\<lparr>conversations := (conversations cc)(source msg \<mapsto> ?h @ [assistant_turn r])\<rparr>,
        events = evs @ [Send r], raised = None\<rparr>"
    by blast
  let ?pre = "drop (length (history cc (source msg)) - 9) (history cc (source msg))"
  have pre: "?h = ?pre @ [JObj [(''role'', JStr ''user''), (''content'', JStr t)]]"
    using with_user_turn_append [of "[]" "history cc (source msg)" t] by (simp add: user_turn_def)
  have r: "fst (chat_completion ?c n ?h (model cc)) = Inr r"
    by (simp add: cc)
  have stored: "history (after (chat_handle cc msg n)) (source msg) =
        ?pre @ [JObj [(''role'', JStr ''user''), (''content'', JStr t)],
               JObj [(''role'', JStr ''assistant''), (''content'', r)]]"
    by (simp add: out history_update pre assistant_turn_def)
  have call: "chat_completion ?c n (?pre @ [JObj [(''role'', JStr ''user''), (''content'', JStr t)]])
                (model cc) = (Inr r, evs)"
    using cc by (simp add: pre)
  have none: "\<not> truthy (model cc) \<and> fst (list_models ?c n) = Inr [] \<longrightarrow>
            r = JStr ''Sorry, no models are available at the moment.''"
    using chat_completion_no_models [of "model cc" ?c n ?h] r
    by (auto simp: no_models_text_def)
  have raises: "r = JStr (''Sorry, I couldn'' @ [CHR 0x27] @ ''t process your request: '' @ exn_str e')"
    if "?posting" and "\<forall>p. chat_completion_try ?c n p = Inl e'" for e'
    using chat_completion_raised [OF that, of ?h] r by (simp add: request_failed_text_def)
  have failed: "(\<forall>p. http_post n ?url p = Inl e) \<longrightarrow>
             r = JStr (''Sorry, I couldn'' @ [CHR 0x27] @ ''t process your request: '' @ exn_str e)"
    if "?posting"
    using raises [OF that, of e] chat_completion_try_failed [of n ?c _ e] by blast
  have refused: "(\<forall>p. \<exists>resp b. http_post n ?url p = Inr resp \<and> status resp = st \<and> text_body resp = Inr b)
             \<and> st \<noteq> 200 \<longrightarrow> r = JStr (''Sorry, I encountered an error: '' @ str_int st)"
    if "?posting"
    using chat_completion_refused [OF that, of st ?h] r by (auto simp: status_error_text_def)
  have unreadable: "(\<forall>p. \<exists>resp. http_post n ?url p = Inr resp \<and> status resp \<noteq> 200 \<and> text_body resp = Inl e)
             \<longrightarrow> r = JStr (''Sorry, I couldn'' @ [CHR 0x27] @ ''t process your request: '' @ exn_str e)"
    if "?posting"
    using raises [OF that, of e] chat_completion_try_unreadable [of n ?c _ _ e] by metis
  have not_json: "(\<forall>p. \<exists>resp. http_post n ?url p = Inr resp \<and> status resp = 200 \<and> json_body resp = Inl e)
             \<longrightarrow> r = JStr (''Sorry, I couldn'' @ [CHR 0x27] @ ''t process your request: '' @ exn_str e)"
    if "?posting"
    using raises [OF that, of e] chat_completion_try_not_json [of n ?c _ _ e] by metis
  have no_choices: "(\<forall>p. \<exists>resp. http_post n ?url p = Inr resp \<and> status resp = 200
                 \<and> json_body resp = Inr (JObj [])) \<longrightarrow>
             r = JStr (''Sorry, I couldn'' @ [CHR 0x27] @ ''t process your request: ''
                       @ [CHR 0x27] @ ''choices'' @ [CHR 0x27])"
    if "?posting"
  proof
    assume a: "\<forall>p. \<exists>resp. http_post n ?url p = Inr resp \<and> status resp = 200
                 \<and> json_body resp = Inr (JObj [])"
    have "first_choice_content (JObj []) = Inl (Exn ''KeyError'' ([CHR 0x27] @ ''choices'' @ [CHR 0x27]))"
      by (simp add: first_choice_content_def)
    with a have "\<forall>p. chat_completion_try ?c n p = Inl (Exn ''KeyError'' ([CHR 0x27] @ ''choices'' @ [CHR 0x27]))"
      using chat_completion_try_body [of n ?c _ _ "JObj []"] by metis
    from raises [OF that this] show "r = JStr (''Sorry, I couldn'' @ [CHR 0x27] @ ''t process your request: ''
                       @ [CHR 0x27] @ ''choices'' @ [CHR 0x27])"
      by simp
  qed
  have suffix: "\<exists>k. ?pre = drop k (history cc (source msg))"
    by blast
  have sent: "events (chat_handle cc msg n) = evs @ [Send r]"
    and quiet: "raised (chat_handle cc msg n) = None"
    by (simp_all add: out)
  have posting: "?posting \<longrightarrow>
          ((\<forall>p. http_post n ?url p = Inl e) \<longrightarrow>
             r = JStr (''Sorry, I couldn'' @ [CHR 0x27] @ ''t process your request: '' @ exn_str e))
        \<and> ((\<forall>p. \<exists>resp b. http_post n ?url p = Inr resp \<and> status resp = st \<and> text_body resp = Inr b)
              \<and> st \<noteq> 200 \<longrightarrow>
             r = JStr (''Sorry, I encountered an error: '' @ str_int st))
        \<and> ((\<forall>p. \<exists>resp. http_post n ?url p = Inr resp \<and> status resp \<noteq> 200 \<and> text_body resp = Inl e) \<longrightarrow>
             r = JStr (''Sorry, I couldn'' @ [CHR 0x27] @ ''t process your request: '' @ exn_str e))
        \<and> ((\<forall>p. \<exists>resp. http_post n ?url p = Inr resp \<and> status resp = 200 \<and> json_body resp = Inl e) \<longrightarrow>
             r = JStr (''Sorry, I couldn'' @ [CHR 0x27] @ ''t process your request: '' @ exn_str e))
        \<and> ((\<forall>p. \<exists>resp. http_post n ?url p = Inr resp \<and> status resp = 200
                 \<and> json_body resp = Inr (JObj [])) \<longrightarrow>
             r = JStr (''Sorry, I couldn'' @ [CHR 0x27] @ ''t process your request: ''
                       @ [CHR 0x27] @ ''choices'' @ [CHR 0x27]))"
  proof
    assume p: "?posting"
    from failed [OF p] refused [OF p] unreadable [OF p] not_json [OF p] no_choices [OF p]
    show "((\<forall>p. http_post n ?url p = Inl e) \<longrightarrow>
             r = JStr (''Sorry, I couldn'' @ [CHR 0x27] @ ''t process your request: '' @ exn_str e))
        \<and> ((\<forall>p. \<exists>resp b. http_post n ?url p = Inr resp \<and> status resp = st \<and> text_body resp = Inr b)
              \<and> st \<noteq> 200 \<longrightarrow>
             r = JStr (''Sorry, I encountered an error: '' @ str_int st))
        \<and> ((\<forall>p. \<exists>resp. http_post n ?url p = Inr resp \<and> status resp \<noteq> 200 \<and> text_body resp = Inl e) \<longrightarrow>
             r = JStr (''Sorry, I couldn'' @ [CHR 0x27] @ ''t process your request: '' @ exn_str e))
        \<and> ((\<forall>p. \<exists>resp. http_post n ?url p = Inr resp \<and> status resp = 200 \<and> json_body resp = Inl e) \<longrightarrow>
             r = JStr (''Sorry, I couldn'' @ [CHR 0x27] @ ''t process your request: '' @ exn_str e))
        \<and> ((\<forall>p. \<exists>resp. http_post n ?url p = Inr resp \<and> status resp = 200
                 \<and> json_body resp = Inr (JObj [])) \<longrightarrow>
             r = JStr (''Sorry, I couldn'' @ [CHR 0x27] @ ''t process your request: ''
                       @ [CHR 0x27] @ ''choices'' @ [CHR 0x27]))"
      by - (intro conjI; assumption)
  qed
  from stored suffix call sent quiet none posting show ?thesis
    by - (intro exI [of _ r] exI [of _ ?pre] exI [of _ evs] conjI; assumption)
qed


theorem chat_persists_both_turns_witness:
  "history (after (chat_handle (ChatCommand local_client None) (msg_from ''+100'' ''hello'') service_down)) ''+100'' =
     [JObj [(''role'', JStr ''user''), (''content'', JStr ''hello'')],
      JObj [(''role'', JStr ''assistant''), (''content'', JStr ''Sorry, no models are available at the moment.'')]] \<and>
   history (after (chat_handle (ChatCommand local_client (Some ''m1'')) (msg_from ''+100'' ''hello'') service_down)) ''+100'' =
     [JObj [(''role'', JStr ''user''), (''content'', JStr ''hello'')],
      JObj [(''role'', JStr ''assistant''), (''content'', JStr (''Sorry, I couldn'' @ [CHR 0x27] @ ''t process your request: Cannot connect to host''))]] \<and>
   history (after (chat_handle (ChatCommand local_client (Some ''m1'')) (msg_from ''+100'' ''hello'') (service_refusing 503))) ''+100'' =
     [JObj [(''role'', JStr ''user''), (''content'', JStr ''hello'')],
      JObj [(''role'', JStr ''assistant''), (''content'', JStr ''Sorry, I encountered an error: 503'')]] \<and>
   history (after (chat_handle (ChatCommand local_client (Some ''m1'')) (msg_from ''+100'' ''hello'') (service_unreadable 502))) ''+100'' =
     [JObj [(''role'', JStr ''user''), (''content'', JStr ''hello'')],
      JObj [(''role'', JStr ''assistant''), (''content'', JStr (''Sorry, I couldn'' @ [CHR 0x27] @ ''t process your request: invalid start byte''))]] \<and>
   history (after (chat_handle (ChatCommand local_client (Some ''m1'')) (msg_from ''+100'' ''hello'') service_not_json)) ''+100'' =
     [JObj [(''role'', JStr ''user''), (''content'', JStr ''hello'')],
      JObj [(''role'', JStr ''assistant''), (''content'', JStr (''Sorry, I couldn'' @ [CHR 0x27] @ ''t process your request: unexpected mimetype''))]] \<and>
   history (after (chat_handle (ChatCommand local_client (Some ''m1'')) (msg_from ''+100'' ''hello'') (service_answering models_body (JObj [])))) ''+100'' =
     [JObj [(''role'', JStr ''user''), (''content'', JStr ''hello'')],
      JObj [(''role'', JStr ''assistant''), (''content'', JStr (''Sorry, I couldn'' @ [CHR 0x27] @ ''t process your request: '' @ [CHR 0x27] @ ''choices'' @ [CHR 0x27]))]]"
proof -
  let ?cc = "ChatCommand local_client (Some ''m1'')" and ?unset = "ChatCommand local_client None"
  let ?msg = "msg_from ''+100'' ''hello''"
  let ?url = "base_url local_client @ ''/v1/chat/completions''"
  have msg_text: "text ?msg = Some ''hello''" and ne: "''hello'' \<noteq> []" and src: "source ?msg = ''+100''"
    by (simp_all add: msg_from_def)
  have client: "privatemode_client ?cc = local_client" "privatemode_client ?unset = local_client"
    and configured: "truthy (model ?cc)" "\<not> truthy (model ?unset)"
    by (simp_all add: ChatCommand_def)
  have nothing_listed: "fst (list_models local_client service_down) = Inr []"
    by code_simp
  have down: "\<forall>p. http_post service_down ?url p = Inl cannot_connect"
    by (simp add: service_down_def)
  have refused: "(\<forall>p. \<exists>resp b. http_post (service_refusing 503) ?url p = Inr resp
                    \<and> status resp = 503 \<and> text_body resp = Inr b) \<and> (503::int) \<noteq> 200"
    by (simp add: service_refusing_def error_response_def)
  have unreadable: "\<forall>p. \<exists>resp. http_post (service_unreadable 502) ?url p = Inr resp
                    \<and> status resp \<noteq> 200
                    \<and> text_body resp = Inl (Exn ''UnicodeDecodeError'' ''invalid start byte'')"
    by (simp add: service_unreadable_def Let_def)
  have not_json: "\<forall>p. \<exists>resp. http_post service_not_json ?url p = Inr resp
                    \<and> status resp = 200
                    \<and> json_body resp = Inl (Exn ''ContentTypeError'' ''unexpected mimetype'')"
    by (simp add: service_not_json_def Let_def)
  have no_choices: "\<forall>p. \<exists>resp. http_post (service_answering models_body (JObj [])) ?url p = Inr resp
                    \<and> status resp = 200 \<and> json_body resp = Inr (JObj [])"
    by (simp add: service_answering_def ok_response_def)
  have str: "exn_str cannot_connect = ''Cannot connect to host''" "str_int 503 = ''503''"
    by code_simp+
  have stored: "history (after (chat_handle c ?msg n)) ''+100'' =
          [JObj [(''role'', JStr ''user''), (''content'', JStr ''hello'')],
           JObj [(''role'', JStr ''assistant''), (''content'', r)]]"
    if "history (after (chat_handle c ?msg n)) (source ?msg) =
          pre @ [JObj [(''role'', JStr ''user''), (''content'', JStr ''hello'')],
                 JObj [(''role'', JStr ''assistant''), (''content'', r)]]"
      and "\<exists>k. pre = drop k (history c (source ?msg))" and "history c ''+100'' = []"
    for c n pre r
    using that by (auto simp: src)
  have case_no_model: "history (after (chat_handle ?unset ?msg service_down)) ''+100'' =
     [JObj [(''role'', JStr ''user''), (''content'', JStr ''hello'')],
      JObj [(''role'', JStr ''assistant''), (''content'', JStr ''Sorry, no models are available at the moment.'')]]"
  proof -
    from chat_persists_both_turns [OF msg_text ne, of ?unset service_down cannot_connect 503]
    obtain r pre where
      "history (after (chat_handle ?unset ?msg service_down)) (source ?msg) =
         pre @ [JObj [(''role'', JStr ''user''), (''content'', JStr ''hello'')],
                JObj [(''role'', JStr ''assistant''), (''content'', r)]]"
      "\<exists>k. pre = drop k (history ?unset (source ?msg))"
      "r = JStr ''Sorry, no models are available at the moment.''"
      using configured(2) nothing_listed unfolding client str by auto
    with stored [of ?unset service_down pre r] show ?thesis
      by (simp add: history_initial)
  qed
  have case_down: "history (after (chat_handle ?cc ?msg service_down)) ''+100'' =
     [JObj [(''role'', JStr ''user''), (''content'', JStr ''hello'')],
      JObj [(''role'', JStr ''assistant''), (''content'', JStr (''Sorry, I couldn'' @ [CHR 0x27] @ ''t process your request: Cannot connect to host''))]]"
  proof -
    from chat_persists_both_turns [OF msg_text ne, of ?cc service_down cannot_connect 503]
    obtain r pre where
      "history (after (chat_handle ?cc ?msg service_down)) (source ?msg) =
         pre @ [JObj [(''role'', JStr ''user''), (''content'', JStr ''hello'')],
                JObj [(''role'', JStr ''assistant''), (''content'', r)]]"
      "\<exists>k. pre = drop k (history ?cc (source ?msg))"
      "r = JStr (''Sorry, I couldn'' @ [CHR 0x27] @ ''t process your request: Cannot connect to host'')"
      using configured(1) down unfolding client str by auto
    with stored [of ?cc service_down pre r] show ?thesis
      by (simp add: history_initial)
  qed
  have case_refused: "history (after (chat_handle ?cc ?msg (service_refusing 503))) ''+100'' =
     [JObj [(''role'', JStr ''user''), (''content'', JStr ''hello'')],
      JObj [(''role'', JStr ''assistant''), (''content'', JStr ''Sorry, I encountered an error: 503'')]]"
  proof -
    from chat_persists_both_turns [OF msg_text ne, of ?cc "service_refusing 503" cannot_connect 503]
    obtain r pre where
      "history (after (chat_handle ?cc ?msg (service_refusing 503))) (source ?msg) =
         pre @ [JObj [(''role'', JStr ''user''), (''content'', JStr ''hello'')],
                JObj [(''role'', JStr ''assistant''), (''content'', r)]]"
      "\<exists>k. pre = drop k (history ?cc (source ?msg))"
      "r = JStr ''Sorry, I encountered an error: 503''"
      using configured(1) refused unfolding client str by auto
    with stored [of ?cc "service_refusing 503" pre r] show ?thesis
      by (simp add: history_initial)
  qed
  have case_unreadable: "history (after (chat_handle ?cc ?msg (service_unreadable 502))) ''+100'' =
     [JObj [(''role'', JStr ''user''), (''content'', JStr ''hello'')],
      JObj [(''role'', JStr ''assistant''), (''content'', JStr (''Sorry, I couldn'' @ [CHR 0x27] @ ''t process your request: invalid start byte''))]]"
  proof -
    from chat_persists_both_turns [OF msg_text ne, of ?cc "service_unreadable 502" "Exn ''UnicodeDecodeError'' ''invalid start byte''" 503]
    obtain r pre where
      "history (after (chat_handle ?cc ?msg (service_unreadable 502))) (source ?msg) =
         pre @ [JObj [(''role'', JStr ''user''), (''content'', JStr ''hello'')],
                JObj [(''role'', JStr ''assistant''), (''content'', r)]]"
      "\<exists>k. pre = drop k (history ?cc (source ?msg))"
      "r = JStr (''Sorry, I couldn'' @ [CHR 0x27] @ ''t process your request: invalid start byte'')"
      using configured(1) unreadable unfolding client str by auto
    with stored [of ?cc "service_unreadable 502" pre r] show ?thesis
      by (simp add: history_initial)
  qed
  have case_not_json: "history (after (chat_handle ?cc ?msg service_not_json)) ''+100'' =
     [JObj [(''role'', JStr ''user''), (''content'', JStr ''hello'')],
      JObj [(''role'', JStr ''assistant''), (''content'', JStr (''Sorry, I couldn'' @ [CHR 0x27] @ ''t process your request: unexpected mimetype''))]]"
  proof -
    from chat_persists_both_turns [OF msg_text ne, of ?cc service_not_json "Exn ''ContentTypeError'' ''unexpected mimetype''" 503]
    obtain r pre where
      "history (after (chat_handle ?cc ?msg service_not_json)) (source ?msg) =
         pre @ [JObj [(''role'', JStr ''user''), (''content'', JStr ''hello'')],
                JObj [(''role'', JStr ''assistant''), (''content'', r)]]"
      "\<exists>k. pre = drop k (history ?cc (source ?msg))"
      "r = JStr (''Sorry, I couldn'' @ [CHR 0x27] @ ''t process your request: unexpected mimetype'')"
      using configured(1) not_json unfolding client str by auto
    with stored [of ?cc service_not_json pre r] show ?thesis
      by (simp add: history_initial)
  qed
  have case_no_choices: "history (after (chat_handle ?cc ?msg (service_answering models_body (JObj [])))) ''+100'' =
     [JObj [(''role'', JStr ''user''), (''content'', JStr ''hello'')],
      JObj [(''role'', JStr ''assistant''), (''content'', JStr (''Sorry, I couldn'' @ [CHR 0x27] @ ''t process your request: '' @ [CHR 0x27] @ ''choices'' @ [CHR 0x27]))]]"
  proof -
    from chat_persists_both_turns [OF msg_text ne, of ?cc "service_answering models_body (JObj [])" cannot_connect 503]
    obtain r pre where
      "history (after (chat_handle ?cc ?msg (service_answering models_body (JObj [])))) (source ?msg) =
         pre @ [JObj [(''role'', JStr ''user''), (''content'', JStr ''hello'')],
                JObj [(''role'', JStr ''assistant''), (''content'', r)]]"
      "\<exists>k. pre = drop k (history ?cc (source ?msg))"
      "r = JStr (''Sorry, I couldn'' @ [CHR 0x27] @ ''t process your request: '' @ [CHR 0x27] @ ''choices'' @ [CHR 0x27])"
      using configured(1) no_choices unfolding client str by auto
    with stored [of ?cc "service_answering models_body (JObj [])" pre r] show ?thesis
      by (simp add: history_initial)
  qed
  from case_no_model case_down case_refused case_unreadable case_not_json case_no_choices show ?thesis
    by (intro conjI)
qed

section \<open>Empty and blank texts\<close>

text \<open>
  C3, as stated, has a prompt sent for every empty or whitespace-only text and the
  history left alone. A message of text " " is not empty for the test of the source
  (\<^verbatim>\<open>if c.message.text\<close>, \<^verbatim>\<open>not message_text\<close>): the bot appends it to the history
  of its sender and answers it like any other, with no prompt. For an empty text the bot
  sends nothing: the prompt of \<^verbatim>\<open>ChatCommand.handle\<close> is behind the test of the
  universal handler, which only passes texts that are not empty.
\<close>

theorem no_prompt_for_blank_or_empty:
  "history (ChatCommand local_client None) ''+100'' = []
   \<and> history (after (on_message (ChatCommand local_client None) (msg_from ''+100'' '' '') service_down))
        ''+100'' =
       [JObj [(''role'', JStr ''user''), (''content'', JStr '' '')],
        JObj [(''role'', JStr ''assistant''), (''content'', JStr ''Sorry, no models are available at the moment.'')]]
   \<and> events (on_message (ChatCommand local_client None) (msg_from ''+100'' '' '') service_down) =
       [HttpGet ''http://localhost:8080/v1/models'',
        Send (JStr ''Sorry, no models are available at the moment.'')]
   \<and> events (on_message (ChatCommand local_client None) (msg_from ''+100'' []) service_down) = []
   \<and> events (on_message (ChatCommand local_client None) \<lparr>source = ''+100'', text = None\<rparr>
               service_down) = []"
  by code_simp

text \<open>
  C3, amended. For every inbound message whose text is empty (\<^verbatim>\<open>None\<close> or the empty
  string), the bot leaves the conversation history of the sender, and every other,
  unchanged, and raises nothing.
\<close>

theorem empty_text_leaves_history:
  assumes "\<not> truthy (text msg)"
  shows "(text msg = None \<or> text msg = Some [])
       \<and> after (on_message cc msg n) = cc
       \<and> (\<forall>s. history (after (on_message cc msg n)) s = history cc s)
       \<and> raised (on_message cc msg n) = None"
  using assms by (cases "text msg") (simp_all add: on_message_def universal_handle_def)

theorem empty_text_leaves_history_witness:
  "history (after (on_message (chat_run (ChatCommand local_client None) (take 1 six_messages))
                    (msg_from ''+100'' []) (service_up (JStr ''hi there'')))) ''+100'' =
     [JObj [(''role'', JStr ''user''), (''content'', JStr ''one'')],
      JObj [(''role'', JStr ''assistant''), (''content'', JStr ''Sorry, no models are available at the moment.'')]]
   \<and> history (after (on_message (chat_run (ChatCommand local_client None) (take 1 six_messages))
                    \<lparr>source = ''+100'', text = None\<rparr> (service_up (JStr ''hi there'')))) ''+100'' =
     [JObj [(''role'', JStr ''user''), (''content'', JStr ''one'')],
      JObj [(''role'', JStr ''assistant''), (''content'', JStr ''Sorry, no models are available at the moment.'')]]"
proof -
  let ?cc = "chat_run (ChatCommand local_client None) (take 1 six_messages)"
  have empty: "\<not> truthy (text (msg_from ''+100'' []))"
    and none: "\<not> truthy (text \<lparr>source = ''+100'', text = None\<rparr>)"
    by (simp_all add: msg_from_def)
  have before: "history ?cc ''+100'' =
     [JObj [(''role'', JStr ''user''), (''content'', JStr ''one'')],
      JObj [(''role'', JStr ''assistant''), (''content'', JStr ''Sorry, no models are available at the moment.'')]]"
    by code_simp
  have a: "history (after (on_message ?cc (msg_from ''+100'' []) (service_up (JStr ''hi there''))))
             ''+100'' = history ?cc ''+100''"
    using empty_text_leaves_history [OF empty, of ?cc "service_up (JStr ''hi there'')"] by blast
  have b: "history (after (on_message ?cc \<lparr>source = ''+100'', text = None\<rparr>
             (service_up (JStr ''hi there'')))) ''+100'' = history ?cc ''+100''"
    using empty_text_leaves_history [OF none, of ?cc "service_up (JStr ''hi there'')"] by blast
  show ?thesis
    unfolding a b before by (intro conjI refl)
qed

text \<open>
  C10. For every message whose text is empty, the registered universal handler sends
  nothing, issues no request and leaves the command object, with every history, as it
  was; the chat handler is not called.
\<close>

theorem universal_handle_empty_text:
  assumes "\<not> truthy (text msg)"
  shows "universal_handle cc msg n = \<lparr>after = cc, events = [], raised = None\<rparr>
       \<and> on_message cc msg n = \<lparr>after = cc, events = [], raised = None\<rparr>
       \<and> dispatch (text msg) = [UniversalChatHandler]"
  using assms by (simp add: universal_handle_def on_message_def dispatch_def registered_def)

theorem universal_handle_empty_text_witness:
  "on_message (ChatCommand local_client None) (msg_from ''+100'' []) (service_up (JStr ''hi there'')) =
     \<lparr>after = ChatCommand local_client None, events = [], raised = None\<rparr>
   \<and> universal_handle (ChatCommand local_client None) \<lparr>source = ''+100'', text = None\<rparr>
        (service_up (JStr ''hi there'')) =
     \<lparr>after = ChatCommand local_client None, events = [], raised = None\<rparr>
   \<and> dispatch (Some []) = [UniversalChatHandler]"
proof -
  have a: "\<not> truthy (text (msg_from ''+100'' []))"
    and b: "\<not> truthy (text \<lparr>source = ''+100'', text = None\<rparr>)"
    by (simp_all add: msg_from_def)
  have "text (msg_from ''+100'' []) = Some []"
    by (simp add: msg_from_def)
  with universal_handle_empty_text [OF a] universal_handle_empty_text [OF b] show ?thesis
    by simp
qed

section \<open>Routing\<close>

text \<open>
  C2. The claim sends the text "models" to the Models handler, "clear" to the Clear
  handler and "help" to the Help handler. The code does not: \<^verbatim>\<open>main\<close> registers the
  universal handler only, and the bot treats "models", and "!models" as the help text
  spells it, as chat: the text is stored as a user turn and posted to the completion
  endpoint, and the completion is the reply. On "clear" the history of the sender grows
  by two turns, where \<^verbatim>\<open>ClearCommand.handle\<close> would have removed it.
\<close>

theorem command_words_are_posted_as_chat:
  "events (on_message (ChatCommand local_client None) (msg_from ''+100'' ''models'')
             (service_up (JStr ''hi there''))) =
       [HttpGet ''http://localhost:8080/v1/models'',
        HttpPost ''http://localhost:8080/v1/chat/completions''
          (JObj [(''model'', JStr ''m1''), (''messages'', JArr [JObj [(''role'', JStr ''user''), (''content'', JStr ''models'')]]),
                 (''temperature'', JFloat (7 / 10)), (''max_tokens'', JInt 1000)]),
        Send (JStr ''hi there'')]
   \<and> history (after (on_message (ChatCommand local_client None) (msg_from ''+100'' ''models'')
                      (service_up (JStr ''hi there'')))) ''+100'' =
       [JObj [(''role'', JStr ''user''), (''content'', JStr ''models'')],
        JObj [(''role'', JStr ''assistant''), (''content'', JStr ''hi there'')]]
   \<and> events (on_message (ChatCommand local_client None) (msg_from ''+100'' ''!models'')
             (service_up (JStr ''hi there''))) =
       [HttpGet ''http://localhost:8080/v1/models'',
        HttpPost ''http://localhost:8080/v1/chat/completions''
          (JObj [(''model'', JStr ''m1''), (''messages'', JArr [JObj [(''role'', JStr ''user''), (''content'', JStr ''!models'')]]),
                 (''temperature'', JFloat (7 / 10)), (''max_tokens'', JInt 1000)]),
        Send (JStr ''hi there'')]
   \<and> history (after (on_message (chat_run (ChatCommand local_client None) (take 1 six_messages))
                      (msg_from ''+100'' ''clear'') service_down)) ''+100'' =
       [JObj [(''role'', JStr ''user''), (''content'', JStr ''one'')],
        JObj [(''role'', JStr ''assistant''), (''content'', JStr ''Sorry, no models are available at the moment.'')],
        JObj [(''role'', JStr ''user''), (''content'', JStr ''clear'')],
        JObj [(''role'', JStr ''assistant''), (''content'', JStr ''Sorry, no models are available at the moment.'')]]
   \<and> history (after (clear_handle (chat_run (ChatCommand local_client None) (take 1 six_messages))
                      (msg_from ''+100'' ''clear''))) ''+100'' = []
   \<and> events (clear_handle (chat_run (ChatCommand local_client None) (take 1 six_messages))
               (msg_from ''+100'' ''clear'')) =
       [Send (JStr ''Conversation history cleared.'')]"
  by code_simp

section \<open>The length of a history\<close>

text \<open>
  C1, as stated, bounds the history by 10 turns. After the sixth message of a sender the
  history holds 11.
\<close>

theorem history_exceeds_ten:
  "\<not> length (history (chat_run (ChatCommand local_client None) six_messages) ''+100'') \<le> 10"
  by code_simp

text \<open>
  C1, amended. For every sender, after any number of sequential chat invocations on a
  new chat command, the history held for the sender consists of the last 11 turns
  exchanged with that sender (all of them when there are fewer), in the order of receipt;
  so it holds at most 11 turns.
\<close>

theorem history_is_recent_transcript:
  "history (chat_run (ChatCommand c mdl) run) s =
     drop (length (transcript (ChatCommand c mdl) s run) - 11) (transcript (ChatCommand c mdl) s run)
   \<and> length (history (chat_run (ChatCommand c mdl) run) s) \<le> 11"
proof
  have "\<forall>s. history (ChatCommand c mdl) s = drop (length ([]::json list) - 11) []"
    by (simp add: history_initial)
  from chat_run_last_turns [OF this, of run s]
  show "history (chat_run (ChatCommand c mdl) run) s =
     drop (length (transcript (ChatCommand c mdl) s run) - 11) (transcript (ChatCommand c mdl) s run)"
    by simp
  then show "length (history (chat_run (ChatCommand c mdl) run) s) \<le> 11"
    by simp
qed

text \<open>
  C9. The bound that sequential chat invocations keep on every history is 11: it holds
  after any run from any state in which it holds, in particular from a new chat command.
  In one invocation with a text that is not empty, the history is cut to its last 10
  turns right after the user turn is appended; that list of at most 10 turns is what
  \<^verbatim>\<open>chat_completion\<close> is called with, and the assistant turn is appended to it with no
  further cut. The length 11 is reached: six messages of one sender give it.
\<close>

theorem chat_history_bound:
  "((\<forall>s. length (history cc s) \<le> 11) \<longrightarrow> (\<forall>s. length (history (chat_run cc run) s) \<le> 11))
   \<and> (\<forall>s. length (history (chat_run (ChatCommand c mdl) run) s) \<le> 11)
   \<and> (text msg = Some t \<and> t \<noteq> [] \<longrightarrow>
        (\<exists>r. fst (chat_completion (privatemode_client cc) n
                    (with_user_turn (history cc (source msg)) t) (model cc)) = Inr r
            \<and> history (after (chat_handle cc msg n)) (source msg) =
                with_user_turn (history cc (source msg)) t @ [assistant_turn r])
        \<and> with_user_turn (history cc (source msg)) t =
            drop (length (history cc (source msg) @ [user_turn t]) - 10)
                 (history cc (source msg) @ [user_turn t])
        \<and> length (with_user_turn (history cc (source msg)) t) \<le> 10)
   \<and> length (history (chat_run (ChatCommand local_client None) six_messages) ''+100'') = 11"
proof (intro conjI impI)
  assume "\<forall>s. length (history cc s) \<le> 11"
  then show "\<forall>s. length (history (chat_run cc run) s) \<le> 11"
    using chat_run_bound by blast
next
  have "\<forall>s. length (history (ChatCommand c mdl) s) \<le> 11"
    by (simp add: history_initial)
  then show "\<forall>s. length (history (chat_run (ChatCommand c mdl) run) s) \<le> 11"
    using chat_run_bound by blast
next
  assume "text msg = Some t \<and> t \<noteq> []"
  then have t: "text msg = Some t" "t \<noteq> []" by simp_all
  from chat_handle_truthy [OF t, of cc n]
  show "\<exists>r. fst (chat_completion (privatemode_client cc) n
                    (with_user_turn (history cc (source msg)) t) (model cc)) = Inr r
            \<and> history (after (chat_handle cc msg n)) (source msg) =
                with_user_turn (history cc (source msg)) t @ [assistant_turn r]"
    by (auto simp: history_update)
next
  show "with_user_turn (history cc (source msg)) t =
            drop (length (history cc (source msg) @ [user_turn t]) - 10)
                 (history cc (source msg) @ [user_turn t])"
    by (simp add: with_user_turn_def Let_def)
next
  show "length (with_user_turn (history cc (source msg)) t) \<le> 10"
    by (rule with_user_turn_length)
next
  show "length (history (chat_run (ChatCommand local_client None) six_messages) ''+100'') = 11"
    by code_simp
qed

theorem chat_history_bound_witness:
  "length (history (ChatCommand local_client None) ''+100'') \<le> 11
   \<and> length (history (chat_run (ChatCommand local_client None) six_messages) ''+100'') \<le> 11
   \<and> (\<exists>r. history (after (chat_handle (chat_run (ChatCommand local_client None) six_messages)
                  (msg_from ''+100'' ''seven'') service_down)) ''+100'' =
            with_user_turn (history (chat_run (ChatCommand local_client None) six_messages) ''+100'')
              ''seven'' @ [assistant_turn r])
   \<and> length (with_user_turn (history (chat_run (ChatCommand local_client None) six_messages) ''+100'')
        ''seven'') = 10"
proof -
  let ?cc = "ChatCommand local_client None" and ?msg = "msg_from ''+100'' ''seven''"
  have start: "\<forall>s. length (history ?cc s) \<le> 11"
    by (simp add: history_initial)
  have msg: "text ?msg = Some ''seven'' \<and> ''seven'' \<noteq> []" and src: "source ?msg = ''+100''"
    by (simp_all add: msg_from_def)
  have ten: "length (with_user_turn (history (chat_run ?cc six_messages) ''+100'') ''seven'') = 10"
    by code_simp
  from chat_history_bound [of ?cc six_messages local_client None ?msg "''seven''" service_down]
    chat_history_bound [of "chat_run ?cc six_messages" "[]" local_client None ?msg "''seven''"
      service_down]
  show ?thesis
    using start msg ten unfolding src by blast
qed

section \<open>Two invocations for one sender at once\<close>

text \<open>
  C8, as stated, has the history grow by exactly 2 and stay within 10 turns. Each
  invocation appends two turns, so two of them add four; and when both user turns are
  appended before either assistant turn, a history of 10 turns becomes one of 12.
\<close>

theorem interleaved_history_grows_by_four:
  "[AppendUser (msg_from ''+100'' ''one''), AppendUser (msg_from ''+100'' ''two''),
    AppendAssistant (msg_from ''+100'' ''one'') (JStr ''first''),
    AppendAssistant (msg_from ''+100'' ''two'') (JStr ''second'')]
     \<in> set (schedules (msg_from ''+100'' ''one'') (JStr ''first'')
                       (msg_from ''+100'' ''two'') (JStr ''second''))
   \<and> history (ChatCommand local_client None) ''+100'' = []
   \<and> history_after (ChatCommand local_client None)
        [AppendUser (msg_from ''+100'' ''one''), AppendUser (msg_from ''+100'' ''two''),
         AppendAssistant (msg_from ''+100'' ''one'') (JStr ''first''),
         AppendAssistant (msg_from ''+100'' ''two'') (JStr ''second'')] ''+100'' =
       Inr [JObj [(''role'', JStr ''user''), (''content'', JStr ''one'')],
            JObj [(''role'', JStr ''user''), (''content'', JStr ''two'')],
            JObj [(''role'', JStr ''assistant''), (''content'', JStr ''first'')],
            JObj [(''role'', JStr ''assistant''), (''content'', JStr ''second'')]]
   \<and> length (history (chat_run (ChatCommand local_client None) (take 5 six_messages)) ''+100'') = 10
   \<and> history_after (chat_run (ChatCommand local_client None) (take 5 six_messages))
        [AppendUser (msg_from ''+100'' ''one''), AppendUser (msg_from ''+100'' ''two''),
         AppendAssistant (msg_from ''+100'' ''one'') (JStr ''first''),
         AppendAssistant (msg_from ''+100'' ''two'') (JStr ''second'')] ''+100'' =
       Inr (drop 2 (history (chat_run (ChatCommand local_client None) (take 5 six_messages)) ''+100'')
            @ [JObj [(''role'', JStr ''user''), (''content'', JStr ''one'')],
               JObj [(''role'', JStr ''user''), (''content'', JStr ''two'')],
               JObj [(''role'', JStr ''assistant''), (''content'', JStr ''first'')],
               JObj [(''role'', JStr ''assistant''), (''content'', JStr ''second'')]])
   \<and> length (drop 2 (history (chat_run (ChatCommand local_client None) (take 5 six_messages)) ''+100'')
            @ [JObj [(''role'', JStr ''user''), (''content'', JStr ''one'')],
               JObj [(''role'', JStr ''user''), (''content'', JStr ''two'')],
               JObj [(''role'', JStr ''assistant''), (''content'', JStr ''first'')],
               JObj [(''role'', JStr ''assistant''), (''content'', JStr ''second'')]]) = 12"
  by code_simp

text \<open>
  C8, amended. The two stretches of one invocation, run one after the other with the
  response of its completion call, are \<^verbatim>\<open>ChatCommand.handle\<close>. For every sender, state
  and pair of invocations with texts that are not empty, in each of the three orders in
  which the event loop can run their stretches no append is lost: the history of the sender ends with the two user turns and the two
  assistant turns, the user turn of the message received first before the other, after
  what is kept of the older turns (a suffix of the old history: the oldest go first). It
  holds at most 12 turns, has grown by exactly 4 when it held at most 7, and the history
  of every other sender is untouched.
\<close>

theorem two_invocations_at_once:
  assumes "source a = s" and "source b = s"
    and "text a = Some ta" and "ta \<noteq> []" and "text b = Some tb" and "tb \<noteq> []"
  shows "schedules a ra b rb =
           [[AppendUser a, AppendAssistant a ra, AppendUser b, AppendAssistant b rb],
            [AppendUser a, AppendUser b, AppendAssistant a ra, AppendAssistant b rb],
            [AppendUser a, AppendUser b, AppendAssistant b rb, AppendAssistant a ra]]
       \<and> (\<exists>r. fst (chat_completion (privatemode_client cc) n (history (step_user cc a) s) (model cc))
                = Inr r
              \<and> run_steps cc [AppendUser a, AppendAssistant a r] = Inr (after (chat_handle cc a n)))
       \<and> (\<forall>steps \<in> set (schedules a ra b rb). \<exists>h' pre.
             history_after cc steps s = Inr h'
           \<and> (h' = pre @ [JObj [(''role'', JStr ''user''), (''content'', JStr ta)],
                          JObj [(''role'', JStr ''assistant''), (''content'', ra)],
                          JObj [(''role'', JStr ''user''), (''content'', JStr tb)],
                          JObj [(''role'', JStr ''assistant''), (''content'', rb)]]
              \<or> h' = pre @ [JObj [(''role'', JStr ''user''), (''content'', JStr ta)],
                            JObj [(''role'', JStr ''user''), (''content'', JStr tb)],
                            JObj [(''role'', JStr ''assistant''), (''content'', ra)],
                            JObj [(''role'', JStr ''assistant''), (''content'', rb)]]
              \<or> h' = pre @ [JObj [(''role'', JStr ''user''), (''content'', JStr ta)],
                            JObj [(''role'', JStr ''user''), (''content'', JStr tb)],
                            JObj [(''role'', JStr ''assistant''), (''content'', rb)],
                            JObj [(''role'', JStr ''assistant''), (''content'', ra)]])
           \<and> (\<exists>k. pre = drop k (history cc s))
           \<and> length h' \<le> 12
           \<and> (length (history cc s) \<le> 7 \<longrightarrow> length h' = length (history cc s) + 4)
           \<and> (\<forall>s'. s' \<noteq> s \<longrightarrow> history_after cc steps s' = Inr (history cc s')))"
proof (intro conjI ballI)
  show "schedules a ra b rb =
           [[AppendUser a, AppendAssistant a ra, AppendUser b, AppendAssistant b rb],
            [AppendUser a, AppendUser b, AppendAssistant a ra, AppendAssistant b rb],
            [AppendUser a, AppendUser b, AppendAssistant b rb, AppendAssistant a ra]]"
    by (rule schedules_three)
next
  show "\<exists>r. fst (chat_completion (privatemode_client cc) n (history (step_user cc a) s) (model cc))
                = Inr r
              \<and> run_steps cc [AppendUser a, AppendAssistant a r] = Inr (after (chat_handle cc a n))"
    using chat_handle_as_steps [OF assms(3,4), of cc n] assms(1) by simp
next
  fix steps
  assume "steps \<in> set (schedules a ra b rb)"
  then consider
      (seq) "steps = [AppendUser a, AppendAssistant a ra, AppendUser b, AppendAssistant b rb]"
    | (ab) "steps = [AppendUser a, AppendUser b, AppendAssistant a ra, AppendAssistant b rb]"
    | (ba) "steps = [AppendUser a, AppendUser b, AppendAssistant b rb, AppendAssistant a ra]"
    by (auto simp: schedules_three)
  then show "\<exists>h' pre.
             history_after cc steps s = Inr h'
           \<and> (h' = pre @ [JObj [(''role'', JStr ''user''), (''content'', JStr ta)],
                          JObj [(''role'', JStr ''assistant''), (''content'', ra)],
                          JObj [(''role'', JStr ''user''), (''content'', JStr tb)],
                          JObj [(''role'', JStr ''assistant''), (''content'', rb)]]
              \<or> h' = pre @ [JObj [(''role'', JStr ''user''), (''content'', JStr ta)],
                            JObj [(''role'', JStr ''user''), (''content'', JStr tb)],
                            JObj [(''role'', JStr ''assistant''), (''content'', ra)],
                            JObj [(''role'', JStr ''assistant''), (''content'', rb)]]
              \<or> h' = pre @ [JObj [(''role'', JStr ''user''), (''content'', JStr ta)],
                            JObj [(''role'', JStr ''user''), (''content'', JStr tb)],
                            JObj [(''role'', JStr ''assistant''), (''content'', rb)],
                            JObj [(''role'', JStr ''assistant''), (''content'', ra)]])
           \<and> (\<exists>k. pre = drop k (history cc s))
           \<and> length h' \<le> 12
           \<and> (length (history cc s) \<le> 7 \<longrightarrow> length h' = length (history cc s) + 4)
           \<and> (\<forall>s'. s' \<noteq> s \<longrightarrow> history_after cc steps s' = Inr (history cc s'))"
  proof cases
    case seq
    show ?thesis
      unfolding seq history_after_sequential [OF assms]
      by (rule exI, rule exI [of _ "drop (length (history cc s) - 7) (history cc s)"])
         (auto simp: user_turn_def assistant_turn_def)
  next
    case ab
    show ?thesis
      unfolding ab history_after_interleaved(1) [OF assms]
      by (rule exI, rule exI [of _ "drop (length (history cc s) - 8) (history cc s)"])
         (auto simp: user_turn_def assistant_turn_def)
  next
    case ba
    show ?thesis
      unfolding ba history_after_interleaved(2) [OF assms]
      by (rule exI, rule exI [of _ "drop (length (history cc s) - 8) (history cc s)"])
         (auto simp: user_turn_def assistant_turn_def)
  qed
qed


theorem two_invocations_at_once_witness:
  "\<exists>h' pre.
     history_after (chat_run (ChatCommand local_client None) (take 5 six_messages))
       [AppendUser (msg_from ''+100'' ''one''), AppendUser (msg_from ''+100'' ''two''),
        AppendAssistant (msg_from ''+100'' ''one'') (JStr ''first''),
        AppendAssistant (msg_from ''+100'' ''two'') (JStr ''second'')] ''+100'' = Inr h'
     \<and> (h' = pre @ [JObj [(''role'', JStr ''user''), (''content'', JStr ''one'')],
                    JObj [(''role'', JStr ''assistant''), (''content'', JStr ''first'')],
                    JObj [(''role'', JStr ''user''), (''content'', JStr ''two'')],
                    JObj [(''role'', JStr ''assistant''), (''content'', JStr ''second'')]]
        \<or> h' = pre @ [JObj [(''role'', JStr ''user''), (''content'', JStr ''one'')],
                      JObj [(''role'', JStr ''user''), (''content'', JStr ''two'')],
                      JObj [(''role'', JStr ''assistant''), (''content'', JStr ''first'')],
                      JObj [(''role'', JStr ''assistant''), (''content'', JStr ''second'')]]
        \<or> h' = pre @ [JObj [(''role'', JStr ''user''), (''content'', JStr ''one'')],
                      JObj [(''role'', JStr ''user''), (''content'', JStr ''two'')],
                      JObj [(''role'', JStr ''assistant''), (''content'', JStr ''second'')],
                      JObj [(''role'', JStr ''assistant''), (''content'', JStr ''first'')]])
     \<and> length h' \<le> 12"
proof -
  let ?a = "msg_from ''+100'' ''one''" and ?b = "msg_from ''+100'' ''two''"
  let ?steps = "[AppendUser ?a, AppendUser ?b, AppendAssistant ?a (JStr ''first''),
                 AppendAssistant ?b (JStr ''second'')]"
  have a: "source ?a = ''+100''" "text ?a = Some ''one''" "''one'' \<noteq> []"
    and b: "source ?b = ''+100''" "text ?b = Some ''two''" "''two'' \<noteq> []"
    by (simp_all add: msg_from_def)
  note at_once = two_invocations_at_once [OF a(1) b(1) a(2,3) b(2,3),
      of "JStr ''first''" "JStr ''second''"
         "chat_run (ChatCommand local_client None) (take 5 six_messages)"]
  have "?steps \<in> set (schedules ?a (JStr ''first'') ?b (JStr ''second''))"
    using at_once by simp
  with at_once show ?thesis
    by blast
qed


end
